theory Spec2Isabelle
  imports Main "HOL-Library.Word" "HOL-Library.AList"
begin

section \<open>Environment of the server process\<close>

text \<open>
  The hub runs in one Node.js process. What the code takes from the runtime is collected
  in an environment record: the shared secret (\<^verbatim>\<open>COMPLIANCE_SHARED_SECRET\<close>), the
  hash functions of \<^verbatim>\<open>crypto\<close> (a SHA-256 digest is a 256-bit word), \<^verbatim>\<open>JSON.stringify\<close>,
  base64 encoding, the wall clock and the UUID generator. The clock is a sequence of
  readings: the n-th call of \<^verbatim>\<open>Date.now()\<close> returns \<open>clock n\<close>; likewise the n-th call of
  \<^verbatim>\<open>crypto.randomUUID()\<close> returns \<open>randomUUID n\<close>.
\<close>

datatype json =
    JNull
  | JBool bool
  | JNum int
  | JStr string
  | JArr "json list"
  | JObj "(string \<times> json) list"

text \<open>The values that \<^verbatim>\<open>||\<close> and \<^verbatim>\<open>!\<close> treat as false.\<close>

fun falsy :: "json \<Rightarrow> bool" where
  "falsy JNull = True"
| "falsy (JBool b) = (\<not> b)"
| "falsy (JNum n) = (n = 0)"
| "falsy (JStr s) = (s = [])"
| "falsy (JArr xs) = False"
| "falsy (JObj fields) = False"

record env =
  SHARED_SECRET :: string
  hmac_sha256 :: "string \<Rightarrow> string \<Rightarrow> 256 word"
  sha256 :: "string \<Rightarrow> 256 word"
  stringify :: "json \<Rightarrow> string"
  base64 :: "string \<Rightarrow> string"
  clock :: "nat \<Rightarrow> int"
  randomUUID :: "nat \<Rightarrow> string"

datatype error = Error (message: string)

subsection \<open>Hexadecimal buffers\<close>

type_synonym byte = "8 word"

definition hex_digits :: string where
  "hex_digits = ''0123456789abcdef''"

definition hexchar :: "nat \<Rightarrow> char" where
  "hexchar d = hex_digits ! d"

definition unhex :: "char \<Rightarrow> nat option" where
  "unhex c = map_of
     [(CHR ''0'', 0), (CHR ''1'', 1), (CHR ''2'', 2), (CHR ''3'', 3), (CHR ''4'', 4),
      (CHR ''5'', 5), (CHR ''6'', 6), (CHR ''7'', 7), (CHR ''8'', 8), (CHR ''9'', 9),
      (CHR ''a'', 10), (CHR ''b'', 11), (CHR ''c'', 12), (CHR ''d'', 13), (CHR ''e'', 14),
      (CHR ''f'', 15),
      (CHR ''A'', 10), (CHR ''B'', 11), (CHR ''C'', 12), (CHR ''D'', 13), (CHR ''E'', 14),
      (CHR ''F'', 15)] c"

text \<open>
  \<^verbatim>\<open>Buffer.from(s, 'hex')\<close>: Node decodes two characters at a time and stops at the first
  pair that is not hexadecimal; a trailing single character is dropped.
\<close>

fun hex_decode :: "string \<Rightarrow> byte list" where
  "hex_decode (a # b # rest) =
     (case (unhex a, unhex b) of
        (Some x, Some y) \<Rightarrow> of_nat (x * 16 + y) # hex_decode rest
      | _ \<Rightarrow> [])"
| "hex_decode _ = []"

text \<open>\<^verbatim>\<open>digest('hex')\<close>: the 32 bytes of the digest, most significant first, two lower-case
  hexadecimal digits each.\<close>

definition word_bytes :: "256 word \<Rightarrow> byte list" where
  "word_bytes w = map (\<lambda>i. ucast (drop_bit (8 * (31 - i)) w)) [0..<32]"

definition hex_encode :: "byte list \<Rightarrow> string" where
  "hex_encode bs = concat (map (\<lambda>b. [hexchar (unat b div 16), hexchar (unat b mod 16)]) bs)"

definition digest_hex :: "256 word \<Rightarrow> string" where
  "digest_hex w = hex_encode (word_bytes w)"

text \<open>
  \<^verbatim>\<open>crypto.timingSafeEqual(a, b)\<close> throws a RangeError when the two buffers differ in
  byte length, and otherwise tells whether they are equal.
\<close>

definition timingSafeEqual :: "byte list \<Rightarrow> byte list \<Rightarrow> error + bool" where
  "timingSafeEqual a b =
     (if length a \<noteq> length b then Inl (Error ''Input buffers must have the same byte length'')
      else Inr (a = b))"

subsection \<open>HMAC signatures (both modules define the same createSignature)\<close>

definition createSignature :: "env \<Rightarrow> json \<Rightarrow> string" where
  "createSignature e data = digest_hex (hmac_sha256 e (SHARED_SECRET e) (stringify e data))"

text \<open>socket/agentHandler.js: verifySignature.\<close>

definition verifySignature_handler :: "env \<Rightarrow> json \<Rightarrow> string \<Rightarrow> error + bool" where
  "verifySignature_handler e data signature =
     (let expectedSignature = createSignature e data
      in timingSafeEqual (hex_decode signature) (hex_decode expectedSignature))"

text \<open>routes/agents.js: verifySignature, with the base64 fallback after the HMAC check.\<close>

definition verifySignature_routes :: "env \<Rightarrow> json \<Rightarrow> string \<Rightarrow> error + bool" where
  "verifySignature_routes e data signature =
     (let expectedSignature = createSignature e data
      in case timingSafeEqual (hex_decode signature) (hex_decode expectedSignature) of
           Inl err \<Rightarrow> Inl err
         | Inr True \<Rightarrow> Inr True
         | Inr False \<Rightarrow>
             (let simpleSignature = take 32 (base64 e (stringify e data @ SHARED_SECRET e))
              in Inr (signature = simpleSignature)))"

section \<open>Server state\<close>

text \<open>
  The module-level \<^verbatim>\<open>Map\<close>s. A JavaScript Map iterates in insertion order and \<^verbatim>\<open>set\<close> on
  a present key keeps its place, which is what \<open>AList.update\<close> does on an association
  list. Status values are the strings the code writes.
\<close>

record agent =
  a_agentId :: string
  a_platform :: string
  a_connectedAt :: int
  a_lastSeen :: int
  a_status :: string

record agent_connection =
  c_socketId :: string
  c_agentId :: string
  c_platform :: string
  c_connectedAt :: int
  c_lastSeen :: int
  c_status :: string

text \<open>A command as the request route builds it, and as a caller hands it to
  \<^verbatim>\<open>sendCommandToAgent\<close> (there without timestamp, status and authHash).\<close>

record command =
  cmd_id :: string
  cmd_agentId :: string
  cmd_module :: string
  cmd_action :: string
  cmd_params :: json
  cmd_priority :: string

record stored_command = command +
  cmd_timestamp :: int
  cmd_status :: string
  cmd_authHash :: string
  cmd_completedAt :: "int option"

record response =
  r_commandId :: string
  r_agentId :: string
  r_module :: string
  r_status :: string
  r_data :: string
  r_error :: string
  r_executionTime :: int

record stored_response = response +
  r_receivedAt :: int

record authenticated_command = command +
  ac_timestamp :: int
  ac_authHash :: string

record pending_command = authenticated_command +
  pc_status :: string
  pc_sentAt :: int
  pc_completedAt :: "int option"
  pc_response :: "response option"

record session =
  u_userId :: string
  u_username :: string
  u_socketId :: string

record server =
  activeAgents :: "(string \<times> agent) list"
  agentCommands :: "(string \<times> stored_command) list"
  agentResponses :: "(string \<times> stored_response) list"
  agentConnections :: "(string \<times> agent_connection) list"
  pendingCommands :: "(string \<times> pending_command) list"
  timers :: "(int \<times> string) list"
  activeUsers :: "(string \<times> session) list"
  ticks :: nat
  uuids :: nat

definition Date_now :: "env \<Rightarrow> server \<Rightarrow> int \<times> server" where
  "Date_now e st = (clock e (ticks st), st\<lparr>ticks := Suc (ticks st)\<rparr>)"

definition crypto_randomUUID :: "env \<Rightarrow> server \<Rightarrow> string \<times> server" where
  "crypto_randomUUID e st = (randomUUID e (uuids st), st\<lparr>uuids := Suc (uuids st)\<rparr>)"

text \<open>A socket carries the properties the handlers attach to it.\<close>

record socket =
  socket_id :: string
  socket_agentId :: "string option"
  socket_userId :: "string option"
  socket_username :: "string option"

section \<open>Agent handshake\<close>

record auth_data =
  ad_agentId :: string
  ad_platform :: string
  ad_timestamp :: int
  ad_signature :: string

text \<open>
  A field that is absent and a field that is the empty string (the number 0 for the
  timestamp) are both falsy and take the same branch; the empty string and 0 stand for
  both.
\<close>

definition auth_fields_missing :: "auth_data \<Rightarrow> bool" where
  "auth_fields_missing d \<longleftrightarrow>
     ad_agentId d = [] \<or> ad_platform d = [] \<or> ad_timestamp d = 0 \<or> ad_signature d = []"

definition auth_payload :: "auth_data \<Rightarrow> json" where
  "auth_payload d =
     JObj [(''agentId'', JStr (ad_agentId d)), (''platform'', JStr (ad_platform d)),
           (''timestamp'', JNum (ad_timestamp d))]"

definition ack_payload :: "string \<Rightarrow> int \<Rightarrow> json" where
  "ack_payload agentId now =
     JObj [(''status'', JStr ''authenticated''), (''agentId'', JStr agentId),
           (''timestamp'', JNum now)]"

subsection \<open>Socket event agent:authenticate (socket/agentHandler.js)\<close>

datatype emit =
    Agent_auth_failed string string
  | Agent_authenticated string string int string
  | Command_event string string authenticated_command

definition agent_authenticate ::
  "env \<Rightarrow> socket \<Rightarrow> auth_data \<Rightarrow> server \<Rightarrow> emit list \<times> socket \<times> server" where
  "agent_authenticate e sock authData st =
     (if auth_fields_missing authData
      then ([Agent_auth_failed (socket_id sock) ''Missing required authentication fields''],
            sock, st)
      else case verifySignature_handler e (auth_payload authData) (ad_signature authData) of
        Inl err \<Rightarrow> ([Agent_auth_failed (socket_id sock) ''Authentication failed''], sock, st)
      | Inr False \<Rightarrow>
          ([Agent_auth_failed (socket_id sock) ''Invalid authentication signature''], sock, st)
      | Inr True \<Rightarrow>
          (let (now, st1) = Date_now e st;
               timeDiff = \<bar>now - ad_timestamp authData\<bar>
           in if timeDiff > 300000
              then ([Agent_auth_failed (socket_id sock) ''Authentication timestamp expired''],
                    sock, st1)
              else
                (let st2 = st1\<lparr>agentConnections :=
                       AList.update (ad_agentId authData)
                         \<lparr>c_socketId = socket_id sock, c_agentId = ad_agentId authData,
                          c_platform = ad_platform authData, c_connectedAt = now,
                          c_lastSeen = now, c_status = ''authenticated''\<rparr>
                         (agentConnections st1)\<rparr>;
                     sock' = sock\<lparr>socket_agentId := Some (ad_agentId authData)\<rparr>;
                     signature = createSignature e (ack_payload (ad_agentId authData) now)
                 in ([Agent_authenticated (socket_id sock) (ad_agentId authData) now signature],
                     sock', st2))))"

subsection \<open>POST /api/agents/authenticate (routes/agents.js)\<close>

datatype reply =
    Error_reply nat string
  | Authenticated_reply string int string
  | Command_reply string
  | Response_reply
  | Broadcast_reply nat "string list"

definition post_authenticate :: "env \<Rightarrow> auth_data \<Rightarrow> server \<Rightarrow> reply \<times> server" where
  "post_authenticate e body st =
     (if auth_fields_missing body
      then (Error_reply 400 ''Missing required authentication fields'', st)
      else case verifySignature_routes e (auth_payload body) (ad_signature body) of
        Inl err \<Rightarrow> (Error_reply 500 ''Authentication failed'', st)
      | Inr False \<Rightarrow> (Error_reply 401 ''Invalid authentication signature'', st)
      | Inr True \<Rightarrow>
          (let (now, st1) = Date_now e st;
               timeDiff = \<bar>now - ad_timestamp body\<bar>
           in if timeDiff > 300000
              then (Error_reply 401 ''Authentication timestamp expired'', st1)
              else
                (let st2 = st1\<lparr>activeAgents :=
                       AList.update (ad_agentId body)
                         \<lparr>a_agentId = ad_agentId body, a_platform = ad_platform body,
                          a_connectedAt = now, a_lastSeen = now,
                          a_status = ''authenticated''\<rparr>
                         (activeAgents st1)\<rparr>;
                     signature = createSignature e (ack_payload (ad_agentId body) now)
                 in (Authenticated_reply (ad_agentId body) now signature, st2))))"

section \<open>Command dispatch over HTTP (routes/agents.js)\<close>

definition auth_hash :: "env \<Rightarrow> string \<Rightarrow> string \<Rightarrow> string" where
  "auth_hash e cid action = digest_hex (sha256 e (cid @ action @ SHARED_SECRET e))"

record command_request =
  q_agentId :: string
  q_module :: string
  q_action :: string
  q_params :: "json option"
  q_priority :: "string option"

definition params_or_empty :: "json option \<Rightarrow> json" where
  "params_or_empty p =
     (case p of None \<Rightarrow> JObj [] | Some v \<Rightarrow> if falsy v then JObj [] else v)"

definition priority_or_normal :: "string option \<Rightarrow> string" where
  "priority_or_normal p = (case p of None \<Rightarrow> ''normal'' | Some v \<Rightarrow> v)"

definition new_command ::
  "env \<Rightarrow> string \<Rightarrow> string \<Rightarrow> command_request \<Rightarrow> int \<Rightarrow> stored_command" where
  "new_command e cid agentId body ts =
     \<lparr>cmd_id = cid, cmd_agentId = agentId, cmd_module = q_module body,
      cmd_action = q_action body, cmd_params = params_or_empty (q_params body),
      cmd_priority = priority_or_normal (q_priority body), cmd_timestamp = ts,
      cmd_status = ''pending'', cmd_authHash = auth_hash e cid (q_action body),
      cmd_completedAt = None\<rparr>"

definition post_command :: "env \<Rightarrow> command_request \<Rightarrow> server \<Rightarrow> reply \<times> server" where
  "post_command e body st =
     (if q_agentId body = [] \<or> q_module body = [] \<or> q_action body = []
      then (Error_reply 400 ''Missing required command fields'', st)
      else case map_of (activeAgents st) (q_agentId body) of
        None \<Rightarrow> (Error_reply 404 ''Agent not found or not authenticated'', st)
      | Some agent \<Rightarrow>
          (let (cid, st1) = crypto_randomUUID e st;
               (ts, st2) = Date_now e st1;
               command = new_command e cid (q_agentId body) body ts;
               st3 = st2\<lparr>agentCommands := AList.update cid command (agentCommands st2)\<rparr>;
               (now, st4) = Date_now e st3;
               st5 = st4\<lparr>activeAgents :=
                       AList.update (q_agentId body)
                         (agent\<lparr>a_lastSeen := now, a_status := ''command_sent''\<rparr>)
                         (activeAgents st4)\<rparr>
           in (Command_reply cid, st5)))"

definition response_fields_missing :: "response \<Rightarrow> bool" where
  "response_fields_missing r \<longleftrightarrow> r_commandId r = [] \<or> r_agentId r = [] \<or> r_status r = []"

definition post_response :: "env \<Rightarrow> response \<Rightarrow> server \<Rightarrow> reply \<times> server" where
  "post_response e body st =
     (if response_fields_missing body
      then (Error_reply 400 ''Missing required response fields'', st)
      else case map_of (agentCommands st) (r_commandId body) of
        None \<Rightarrow> (Error_reply 404 ''Command not found'', st)
      | Some command \<Rightarrow>
          (let (receivedAt, st1) = Date_now e st;
               resp = \<lparr>r_commandId = r_commandId body, r_agentId = r_agentId body,
                       r_module = r_module body, r_status = r_status body,
                       r_data = r_data body, r_error = r_error body,
                       r_executionTime = r_executionTime body, r_receivedAt = receivedAt\<rparr>;
               st2 = st1\<lparr>agentResponses :=
                       AList.update (r_commandId body) resp (agentResponses st1)\<rparr>;
               (completedAt, st3) = Date_now e st2;
               st4 = st3\<lparr>agentCommands :=
                       AList.update (r_commandId body)
                         (command\<lparr>cmd_status := r_status body,
                                   cmd_completedAt := Some completedAt\<rparr>)
                         (agentCommands st3)\<rparr>;
               st6 = (case map_of (activeAgents st4) (r_agentId body) of
                        None \<Rightarrow> st4
                      | Some agent \<Rightarrow>
                          (let (now, st5) = Date_now e st4
                           in st5\<lparr>activeAgents :=
                                AList.update (r_agentId body)
                                  (agent\<lparr>a_lastSeen := now, a_status := ''active''\<rparr>)
                                  (activeAgents st5)\<rparr>))
           in (Response_reply, st6)))"

text \<open>The loop of POST /broadcast over \<^verbatim>\<open>Array.from(activeAgents.keys())\<close>; it returns the
  ids pushed to \<^verbatim>\<open>sentCommands\<close>.\<close>

fun broadcast_loop ::
  "env \<Rightarrow> command_request \<Rightarrow> string list \<Rightarrow> server \<Rightarrow> string list \<times> server" where
  "broadcast_loop e body [] st = ([], st)"
| "broadcast_loop e body (agentId # rest) st =
     (let (cid, st1) = crypto_randomUUID e st;
          (ts, st2) = Date_now e st1;
          command = new_command e cid agentId body ts;
          st3 = st2\<lparr>agentCommands := AList.update cid command (agentCommands st2)\<rparr>;
          (sent, st4) = broadcast_loop e body rest st3
      in (cid # sent, st4))"

definition post_broadcast :: "env \<Rightarrow> command_request \<Rightarrow> server \<Rightarrow> reply \<times> server" where
  "post_broadcast e body st =
     (if q_module body = [] \<or> q_action body = []
      then (Error_reply 400 ''Missing required broadcast fields'', st)
      else
        (let activeAgentIds = map fst (activeAgents st);
             (sentCommands, st') = broadcast_loop e body activeAgentIds st
         in (Broadcast_reply (length activeAgentIds) sentCommands, st')))"

section \<open>Command dispatch over the live connection (socket/agentHandler.js)\<close>

text \<open>Socket event response:command. It emits nothing on any path; the deletion of the
  pending command after five minutes is recorded as a timer.\<close>

definition response_command :: "env \<Rightarrow> response \<Rightarrow> server \<Rightarrow> emit list \<times> server" where
  "response_command e resp st =
     (if response_fields_missing resp then ([], st)
      else
        (let st2 = (case map_of (pendingCommands st) (r_commandId resp) of
                      None \<Rightarrow> st
                    | Some command \<Rightarrow>
                        (let (completedAt, st1) = Date_now e st
                         in st1\<lparr>pendingCommands :=
                              AList.update (r_commandId resp)
                                (command\<lparr>pc_status := r_status resp,
                                          pc_completedAt := Some completedAt,
                                          pc_response := Some resp\<rparr>)
                                (pendingCommands st1),
                              timers := timers st1 @ [(300000, r_commandId resp)]\<rparr>));
             st4 = (case map_of (agentConnections st2) (r_agentId resp) of
                      None \<Rightarrow> st2
                    | Some agent \<Rightarrow>
                        (let (now, st3) = Date_now e st2
                         in st3\<lparr>agentConnections :=
                              AList.update (r_agentId resp)
                                (agent\<lparr>c_lastSeen := now, c_status := ''active''\<rparr>)
                                (agentConnections st3)\<rparr>))
         in ([], st4)))"

text \<open>\<^verbatim>\<open>sendCommandToAgent(io, agentId, command)\<close>; \<open>io\<close> is the list of the ids of the
  sockets in \<^verbatim>\<open>io.sockets.sockets\<close>. The result is the thrown error or the returned
  \<^verbatim>\<open>true\<close>, with what was emitted and the state left behind.\<close>

definition authenticate_command :: "env \<Rightarrow> command \<Rightarrow> int \<Rightarrow> authenticated_command" where
  "authenticate_command e c ts =
     \<lparr>cmd_id = cmd_id c, cmd_agentId = cmd_agentId c, cmd_module = cmd_module c,
      cmd_action = cmd_action c, cmd_params = cmd_params c, cmd_priority = cmd_priority c,
      ac_timestamp = ts, ac_authHash = auth_hash e (cmd_id c) (cmd_action c)\<rparr>"

definition pending_of :: "authenticated_command \<Rightarrow> int \<Rightarrow> pending_command" where
  "pending_of ac sentAt =
     \<lparr>cmd_id = cmd_id ac, cmd_agentId = cmd_agentId ac, cmd_module = cmd_module ac,
      cmd_action = cmd_action ac, cmd_params = cmd_params ac, cmd_priority = cmd_priority ac,
      ac_timestamp = ac_timestamp ac, ac_authHash = ac_authHash ac,
      pc_status = ''sent'', pc_sentAt = sentAt, pc_completedAt = None, pc_response = None\<rparr>"

definition sendCommandToAgent ::
  "env \<Rightarrow> string list \<Rightarrow> string \<Rightarrow> command \<Rightarrow> server \<Rightarrow> (error + bool) \<times> emit list \<times> server"
  where
  "sendCommandToAgent e io agentId command st =
     (case map_of (agentConnections st) agentId of
        None \<Rightarrow> (Inl (Error (''Agent not found: '' @ agentId)), [], st)
      | Some agent \<Rightarrow>
          (let (ts, st1) = Date_now e st;
               authenticatedCommand = authenticate_command e command ts;
               (sentAt, st2) = Date_now e st1;
               st3 = st2\<lparr>pendingCommands :=
                       AList.update (cmd_id command) (pending_of authenticatedCommand sentAt)
                         (pendingCommands st2)\<rparr>
           in if c_socketId agent \<in> set io
              then (Inr True,
                    [Command_event (c_socketId agent) (cmd_module command) authenticatedCommand],
                    st3)
              else (Inl (Error (''Agent socket not found: '' @ agentId)), [], st3)))"

text \<open>An entry of the result list: \<^verbatim>\<open>{agentId, success}\<close>, with \<^verbatim>\<open>error\<close> when the send threw.\<close>

datatype broadcast_result =
  Broadcast_result (br_agentId: string) (br_success: bool) (br_error: "string option")

fun broadcast_send ::
  "env \<Rightarrow> string list \<Rightarrow> command \<Rightarrow> agent_connection list \<Rightarrow> server \<Rightarrow>
   broadcast_result list \<times> emit list \<times> server" where
  "broadcast_send e io command [] st = ([], [], st)"
| "broadcast_send e io command (agent # rest) st =
     (case sendCommandToAgent e io (c_agentId agent) command st of
        (Inr result, emits, st1) \<Rightarrow>
          (let (results, emits', st2) = broadcast_send e io command rest st1
           in (Broadcast_result (c_agentId agent) True None # results, emits @ emits', st2))
      | (Inl err, emits, st1) \<Rightarrow>
          (let (results, emits', st2) = broadcast_send e io command rest st1
           in (Broadcast_result (c_agentId agent) False (Some (message err)) # results,
               emits @ emits', st2)))"

definition is_active_agent :: "agent_connection \<Rightarrow> bool" where
  "is_active_agent agent \<longleftrightarrow> c_status agent = ''authenticated'' \<or> c_status agent = ''active''"

definition broadcastCommandToAllAgents ::
  "env \<Rightarrow> string list \<Rightarrow> command \<Rightarrow> server \<Rightarrow> broadcast_result list \<times> emit list \<times> server"
  where
  "broadcastCommandToAllAgents e io command st =
     (let activeAgents' = filter is_active_agent (map snd (agentConnections st))
      in broadcast_send e io command activeAgents' st)"

text \<open>For reading off what was emitted: the socket an emission went to, and the id of
  the command an emission carries.\<close>

fun emit_socket :: "emit \<Rightarrow> string" where
  "emit_socket (Agent_auth_failed sid msg) = sid"
| "emit_socket (Agent_authenticated sid agentId now signature) = sid"
| "emit_socket (Command_event sid module' ac) = sid"

fun emitted_command_id :: "emit \<Rightarrow> string option" where
  "emitted_command_id (Command_event sid module' ac) = Some (cmd_id ac)"
| "emitted_command_id _ = None"

text \<open>The entry of the result list for one agent of the broadcast, from the registry and
  the live sockets alone: success when the registry has the agent and its socket is live,
  and otherwise the message of the error that \<^verbatim>\<open>sendCommandToAgent\<close> throws.\<close>

definition send_outcome ::
  "(string \<times> agent_connection) list \<Rightarrow> string list \<Rightarrow> agent_connection \<Rightarrow> broadcast_result" where
  "send_outcome conns io agent =
     (case map_of conns (c_agentId agent) of
        None \<Rightarrow>
          Broadcast_result (c_agentId agent) False
            (Some (''Agent not found: '' @ c_agentId agent))
      | Some registered \<Rightarrow>
          if c_socketId registered \<in> set io
          then Broadcast_result (c_agentId agent) True None
          else Broadcast_result (c_agentId agent) False
                 (Some (''Agent socket not found: '' @ c_agentId agent)))"

section \<open>Chat messages (models/Message.js)\<close>

record reaction =
  rx_user :: string
  rx_emoji :: string
  rx_createdAt :: int

record message =
  m_id :: string
  m_sender :: string
  m_content :: string
  m_type :: string
  m_file :: "json option"
  m_room :: string
  m_isEdited :: bool
  m_editedAt :: "int option"
  m_isDeleted :: bool
  m_deletedAt :: "int option"
  m_reactions :: "reaction list"
  m_replyTo :: "string option"
  m_createdAt :: "int option"

text \<open>The methods change the document in memory and then call \<^verbatim>\<open>save()\<close>; the functions
  give the document as it is handed to \<^verbatim>\<open>save()\<close>. The new entry's \<^verbatim>\<open>createdAt\<close> is the
  schema default \<^verbatim>\<open>Date.now\<close>.\<close>

definition addReaction :: "int \<Rightarrow> string \<Rightarrow> string \<Rightarrow> message \<Rightarrow> message" where
  "addReaction now userId emoji this =
     this\<lparr>m_reactions :=
       filter (\<lambda>reaction. \<not> rx_user reaction = userId) (m_reactions this)
       @ [\<lparr>rx_user = userId, rx_emoji = emoji, rx_createdAt = now\<rparr>]\<rparr>"

definition removeReaction :: "string \<Rightarrow> message \<Rightarrow> message" where
  "removeReaction userId this =
     this\<lparr>m_reactions := filter (\<lambda>reaction. \<not> rx_user reaction = userId) (m_reactions this)\<rparr>"

text \<open>A sequence of calls on one message, each with the time of the call.\<close>

datatype reaction_call = Add int string string | Remove string

fun apply_call :: "message \<Rightarrow> reaction_call \<Rightarrow> message" where
  "apply_call this (Add now userId emoji) = addReaction now userId emoji this"
| "apply_call this (Remove userId) = removeReaction userId this"

definition apply_calls :: "message \<Rightarrow> reaction_call list \<Rightarrow> message" where
  "apply_calls this calls = foldl apply_call this calls"

text \<open>What the sequence of calls leaves as a user's emoji: the emoji of the user's last
  call if that call added one.\<close>

fun latest_emoji :: "string \<Rightarrow> reaction_call list \<Rightarrow> string option \<Rightarrow> string option" where
  "latest_emoji u [] acc = acc"
| "latest_emoji u (Add now userId emoji # calls) acc =
     latest_emoji u calls (if userId = u then Some emoji else acc)"
| "latest_emoji u (Remove userId # calls) acc =
     latest_emoji u calls (if userId = u then None else acc)"

definition emoji_of :: "message \<Rightarrow> string \<Rightarrow> string option" where
  "emoji_of this u = map_of (map (\<lambda>r. (rx_user r, rx_emoji r)) (m_reactions this)) u"

definition one_reaction_per_user :: "message \<Rightarrow> bool" where
  "one_reaction_per_user this \<longleftrightarrow> distinct (map rx_user (m_reactions this))"

section \<open>Chat events (socket/socketHandler.js)\<close>

text \<open>The collaborators, token verification and persistence: each call either throws
  (rejects) with an error or returns (resolves with) a value. \<open>jwt_verify\<close> is
  \<^verbatim>\<open>jwt.verify(token, process.env.JWT_SECRET)\<close>, \<open>User_find_online\<close> is
  \<^verbatim>\<open>User.find({ isOnline: true }, ...)\<close>, and \<open>MESSAGE_HISTORY_LIMIT\<close> is what \<^verbatim>\<open>parseInt\<close>
  makes of the environment variable, \<open>None\<close> when that is not a number.\<close>

record user =
  usr_id :: string
  usr_username :: string
  usr_avatar :: string
  usr_isOnline :: bool

record token_payload =
  t_userId :: string
  t_username :: string

record online_user =
  ou_userId :: string
  ou_username :: string
  ou_avatar :: string
  ou_isOnline :: bool
  ou_lastSeen :: "int option"

text \<open>A message of the in-memory variant.\<close>

record memory_message =
  mm_id :: string
  mm_userId :: string
  mm_username :: string
  mm_content :: string
  mm_type :: string
  mm_file :: "json option"
  mm_timestamp :: string

record db =
  new_ObjectId :: string
  Message_save :: "message \<Rightarrow> error + message"
  populate_sender :: "message \<Rightarrow> error + user"
  populate_replyTo :: "message \<Rightarrow> error + message option"
  User_findById :: "string \<Rightarrow> error + user option"
  setOnlineStatus :: "user \<Rightarrow> bool \<Rightarrow> error + unit"
  jwt_verify :: "string \<Rightarrow> error + token_payload"
  User_find_online :: "error + online_user list"
  getRecentMessages :: "int \<Rightarrow> error + message list"
  MESSAGE_HISTORY_LIMIT :: "int option"

record send_data =
  sd_content :: string
  sd_type :: string
  sd_file :: "json option"
  sd_room :: string
  sd_replyTo :: string

record formatted_message =
  f_id :: string
  f_sender :: user
  f_content :: string
  f_type :: string
  f_file :: "json option"
  f_room :: string
  f_isEdited :: bool
  f_editedAt :: "int option"
  f_reactions :: "reaction list"
  f_replyTo :: "message option"
  f_createdAt :: "int option"

text \<open>What a handler does, in order: calls to the collaborators and emissions.
  \<open>Emit_error\<close> is \<^verbatim>\<open>socket.emit('error', ...)\<close> on the handler's own socket,
  \<open>Emit_newMessage\<close> is \<^verbatim>\<open>io.to(room).emit('newMessage', ...)\<close>, and \<open>Emit_userLeft\<close> is
  \<^verbatim>\<open>socket.to('general').emit('userLeft', ...)\<close> from the given socket. Of the
  authentication, \<open>Emit_userJoined\<close> is \<^verbatim>\<open>socket.to('general').emit('userJoined', ...)\<close>
  from the given socket; \<open>Emit_activeUsers\<close>, \<open>Emit_messageHistory\<close> and \<open>Emit_authError\<close>
  go to the given socket; \<open>Socket_join\<close> and \<open>Socket_disconnect\<close> are \<^verbatim>\<open>socket.join(room)\<close>
  and \<^verbatim>\<open>socket.disconnect()\<close>.\<close>

datatype chat_effect =
    Db_save message
  | Db_populate_sender
  | Db_populate_replyTo
  | Db_findById string
  | Db_setOnlineStatus string bool
  | Db_find_online
  | Db_getRecentMessages int
  | Emit_error string string
  | Emit_newMessage string formatted_message
  | Emit_userLeft string string string
  | Emit_userJoined string string string string bool
  | Emit_userJoined_memory string string string
  | Emit_activeUsers string "online_user list"
  | Emit_activeUsers_memory string "session list"
  | Emit_messageHistory string "message list"
  | Emit_messageHistory_memory string "memory_message list"
  | Emit_authError string string
  | Socket_join string string
  | Socket_disconnect string

definition truthy :: "string option \<Rightarrow> bool" where
  "truthy v \<longleftrightarrow> (case v of None \<Rightarrow> False | Some s \<Rightarrow> s \<noteq> [])"

definition or_default :: "string \<Rightarrow> string \<Rightarrow> string" where
  "or_default v d = (if v = [] then d else v)"

definition file_or_null :: "json option \<Rightarrow> json option" where
  "file_or_null f = (case f of None \<Rightarrow> None | Some v \<Rightarrow> if falsy v then None else Some v)"

definition new_Message :: "db \<Rightarrow> string \<Rightarrow> send_data \<Rightarrow> message" where
  "new_Message d userId data =
     \<lparr>m_id = new_ObjectId d, m_sender = userId, m_content = sd_content data,
      m_type = or_default (sd_type data) ''text'', m_file = file_or_null (sd_file data),
      m_room = or_default (sd_room data) ''general'', m_isEdited = False, m_editedAt = None,
      m_isDeleted = False, m_deletedAt = None, m_reactions = [],
      m_replyTo = (if sd_replyTo data = [] then None else Some (sd_replyTo data)),
      m_createdAt = None\<rparr>"

definition format_message :: "message \<Rightarrow> user \<Rightarrow> message option \<Rightarrow> formatted_message" where
  "format_message m sender reply =
     \<lparr>f_id = m_id m, f_sender = sender, f_content = m_content m, f_type = m_type m,
      f_file = m_file m, f_room = m_room m, f_isEdited = m_isEdited m,
      f_editedAt = m_editedAt m, f_reactions = m_reactions m, f_replyTo = reply,
      f_createdAt = m_createdAt m\<rparr>"

text \<open>Event sendMessage, database variant.\<close>

definition sendMessage :: "db \<Rightarrow> socket \<Rightarrow> send_data \<Rightarrow> chat_effect list" where
  "sendMessage d sock data =
     (if \<not> truthy (socket_userId sock)
      then [Emit_error (socket_id sock) ''Not authenticated'']
      else
        (let msg = new_Message d (the (socket_userId sock)) data;
             failed = Emit_error (socket_id sock) ''Failed to send message'';
             room = or_default (sd_room data) ''general''
         in case Message_save d msg of
              Inl err \<Rightarrow> [Db_save msg, failed]
            | Inr saved \<Rightarrow>
                (case populate_sender d saved of
                   Inl err \<Rightarrow> [Db_save msg, Db_populate_sender, failed]
                 | Inr sender \<Rightarrow>
                     (if sd_replyTo data \<noteq> []
                      then (case populate_replyTo d saved of
                              Inl err \<Rightarrow>
                                [Db_save msg, Db_populate_sender, Db_populate_replyTo, failed]
                            | Inr reply \<Rightarrow>
                                [Db_save msg, Db_populate_sender, Db_populate_replyTo,
                                 Emit_newMessage room (format_message saved sender reply)])
                      else [Db_save msg, Db_populate_sender,
                            Emit_newMessage room (format_message saved sender None)]))))"

text \<open>Event authenticate, database variant. Every throw and every rejected \<^verbatim>\<open>await\<close>
  inside the \<^verbatim>\<open>try\<close> ends in the \<^verbatim>\<open>catch\<close>, which emits \<^verbatim>\<open>authError\<close> with
  \<^verbatim>\<open>Invalid token\<close> and disconnects the socket. The result is what the handler did, the
  socket with the properties it attached, and the state.\<close>

definition history_limit :: "db \<Rightarrow> int" where
  "history_limit d =
     (case MESSAGE_HISTORY_LIMIT d of None \<Rightarrow> 50 | Some n \<Rightarrow> if n = 0 then 50 else n)"

definition authenticate ::
  "db \<Rightarrow> socket \<Rightarrow> string \<Rightarrow> server \<Rightarrow> chat_effect list \<times> socket \<times> server" where
  "authenticate d sock token st =
     (let caught = [Emit_authError (socket_id sock) ''Invalid token'',
                    Socket_disconnect (socket_id sock)]
      in case jwt_verify d token of
        Inl err \<Rightarrow> (caught, sock, st)
      | Inr decoded \<Rightarrow>
          (case User_findById d (t_userId decoded) of
             Inl err \<Rightarrow> (Db_findById (t_userId decoded) # caught, sock, st)
           | Inr None \<Rightarrow>
               ([Db_findById (t_userId decoded),
                 Emit_authError (socket_id sock) ''User not found'',
                 Socket_disconnect (socket_id sock)], sock, st)
           | Inr (Some user) \<Rightarrow>
               (let sock1 = sock\<lparr>socket_userId := Some (t_userId decoded),
                                 socket_username := Some (t_username decoded)\<rparr>;
                    found = [Db_findById (t_userId decoded),
                             Db_setOnlineStatus (t_userId decoded) True]
                in case setOnlineStatus d user True of
                  Inl err \<Rightarrow> (found @ caught, sock1, st)
                | Inr u \<Rightarrow>
                    (let st1 = st\<lparr>activeUsers :=
                           AList.update (socket_id sock)
                             \<lparr>u_userId = t_userId decoded, u_username = t_username decoded,
                              u_socketId = socket_id sock\<rparr>
                             (activeUsers st)\<rparr>;
                         joined = found @
                           [Socket_join (socket_id sock) ''general'',
                            Emit_userJoined (socket_id sock) (t_userId decoded)
                              (t_username decoded) (usr_avatar user) True,
                            Db_find_online]
                     in case User_find_online d of
                       Inl err \<Rightarrow> (joined @ caught, sock1, st1)
                     | Inr onlineUsers \<Rightarrow>
                         (let listed = joined @
                                [Emit_activeUsers (socket_id sock) onlineUsers,
                                 Db_getRecentMessages (history_limit d)]
                          in case getRecentMessages d (history_limit d) of
                            Inl err \<Rightarrow> (listed @ caught, sock1, st1)
                          | Inr recentMessages \<Rightarrow>
                              (listed @ [Emit_messageHistory (socket_id sock) recentMessages],
                               sock1, st1))))))"

text \<open>Event authenticate, in-memory variant; \<open>messages\<close> is the module's array of
  messages.\<close>

definition authenticate_memory ::
  "db \<Rightarrow> memory_message list \<Rightarrow> socket \<Rightarrow> string \<Rightarrow> server \<Rightarrow>
   chat_effect list \<times> socket \<times> server" where
  "authenticate_memory d messages sock token st =
     (case jwt_verify d token of
        Inl err \<Rightarrow>
          ([Emit_authError (socket_id sock) ''Invalid token'',
            Socket_disconnect (socket_id sock)], sock, st)
      | Inr decoded \<Rightarrow>
          (let sock1 = sock\<lparr>socket_userId := Some (t_userId decoded),
                            socket_username := Some (t_username decoded)\<rparr>;
               st1 = st\<lparr>activeUsers :=
                      AList.update (socket_id sock)
                        \<lparr>u_userId = t_userId decoded, u_username = t_username decoded,
                         u_socketId = socket_id sock\<rparr>
                        (activeUsers st)\<rparr>
           in ([Socket_join (socket_id sock) ''general'',
                Emit_userJoined_memory (socket_id sock) (t_userId decoded) (t_username decoded),
                Emit_activeUsers_memory (socket_id sock) (map snd (activeUsers st1)),
                Emit_messageHistory_memory (socket_id sock)
                  (drop (length messages - 50) messages)],
               sock1, st1)))"

text \<open>Whether a handler announced the arrival of the user to the room, and whether it
  reported an authentication error.\<close>

fun is_userJoined :: "chat_effect \<Rightarrow> bool" where
  "is_userJoined (Emit_userJoined sid userId username avatar isOnline) = True"
| "is_userJoined (Emit_userJoined_memory sid userId username) = True"
| "is_userJoined _ = False"

fun is_authError :: "chat_effect \<Rightarrow> bool" where
  "is_authError (Emit_authError sid msg) = True"
| "is_authError _ = False"

text \<open>An authentication that fails before the session is registered: the token is
  rejected, the user lookup fails or finds no user, or the online-status update fails.\<close>

definition fails_before_session :: "db \<Rightarrow> string \<Rightarrow> bool" where
  "fails_before_session d token =
     (case jwt_verify d token of
        Inl err \<Rightarrow> True
      | Inr decoded \<Rightarrow>
          (case User_findById d (t_userId decoded) of
             Inl err \<Rightarrow> True
           | Inr None \<Rightarrow> True
           | Inr (Some user) \<Rightarrow>
               (case setOnlineStatus d user True of Inl err \<Rightarrow> True | Inr u \<Rightarrow> False)))"

text \<open>Event disconnect, database variant.\<close>

definition disconnect :: "db \<Rightarrow> socket \<Rightarrow> server \<Rightarrow> chat_effect list \<times> server" where
  "disconnect d sock st =
     (if truthy (socket_userId sock) \<and> map_of (activeUsers st) (socket_id sock) \<noteq> None
      then
        (let user = the (map_of (activeUsers st) (socket_id sock));
             st' = st\<lparr>activeUsers := AList.delete (socket_id sock) (activeUsers st)\<rparr>;
             userId = the (socket_userId sock);
             left = Emit_userLeft (socket_id sock) (u_userId user) (u_username user)
         in case User_findById d userId of
              Inl err \<Rightarrow> ([Db_findById userId], st')
            | Inr None \<Rightarrow> ([Db_findById userId, left], st')
            | Inr (Some dbUser) \<Rightarrow>
                (case setOnlineStatus d dbUser False of
                   Inl err \<Rightarrow> ([Db_findById userId, Db_setOnlineStatus userId False], st')
                 | Inr u \<Rightarrow>
                     ([Db_findById userId, Db_setOnlineStatus userId False, left], st')))
      else ([], st))"

text \<open>Event disconnect, in-memory variant.\<close>

definition disconnect_memory :: "socket \<Rightarrow> server \<Rightarrow> chat_effect list \<times> server" where
  "disconnect_memory sock st =
     (if truthy (socket_userId sock) \<and> map_of (activeUsers st) (socket_id sock) \<noteq> None
      then
        (let user = the (map_of (activeUsers st) (socket_id sock))
         in ([Emit_userLeft (socket_id sock) (u_userId user) (u_username user)],
             st\<lparr>activeUsers := AList.delete (socket_id sock) (activeUsers st)\<rparr>))
      else ([], st))"

section \<open>Example data\<close>

text \<open>A small environment and states on which the definitions can be evaluated: every
  digest is zero, the clock starts at 1000000 ms and advances by one per reading, and the
  n-th UUID is \<open>uuid-\<close> followed by n times the letter u.\<close>

definition example_env :: env where
  "example_env =
     \<lparr>SHARED_SECRET = ''secret'', hmac_sha256 = (\<lambda>key msg. 0), sha256 = (\<lambda>msg. 0),
      stringify = (\<lambda>j. []), base64 = (\<lambda>s. s), clock = (\<lambda>n. 1000000 + int n),
      randomUUID = (\<lambda>n. ''uuid-'' @ replicate n CHR ''u'')\<rparr>"

definition empty_server :: server where
  "empty_server =
     \<lparr>activeAgents = [], agentCommands = [], agentResponses = [], agentConnections = [],
      pendingCommands = [], timers = [], activeUsers = [], ticks = 0, uuids = 0\<rparr>"

definition example_socket :: socket where
  "example_socket =
     \<lparr>socket_id = ''s1'', socket_agentId = None, socket_userId = None, socket_username = None\<rparr>"

definition ones64 :: string where
  "ones64 = ''1111111111111111111111111111111111111111111111111111111111111111''"

text \<open>A handshake that is signed correctly and carries a timestamp 400000 ms behind the
  first clock reading of the example environment.\<close>

definition stale_handshake :: auth_data where
  "stale_handshake =
     \<lparr>ad_agentId = ''ag-1'', ad_platform = ''linux'', ad_timestamp = 600000,
      ad_signature = createSignature example_env
        (JObj [(''agentId'', JStr ''ag-1''), (''platform'', JStr ''linux''),
               (''timestamp'', JNum 600000)])\<rparr>"

text \<open>The dispatch of scenario 4 of the specification, as a request body and as a command
  handed to \<^verbatim>\<open>sendCommandToAgent\<close>; a response for a command nobody stored; and a state
  in which agent \<open>ag-1\<close> is registered through socket \<open>s1\<close>.\<close>

definition listFiles_request :: command_request where
  "listFiles_request =
     \<lparr>q_agentId = ''ag-1'', q_module = ''fs'', q_action = ''listFiles'', q_params = None,
      q_priority = None\<rparr>"

definition listFiles_command :: command where
  "listFiles_command =
     \<lparr>cmd_id = ''c1'', cmd_agentId = ''ag-1'', cmd_module = ''fs'', cmd_action = ''listFiles'',
      cmd_params = JObj [], cmd_priority = ''normal''\<rparr>"

definition unknown_response :: response where
  "unknown_response =
     \<lparr>r_commandId = ''c9'', r_agentId = ''ag-1'', r_module = ''fs'', r_status = ''completed'',
      r_data = ''ok'', r_error = [], r_executionTime = 12\<rparr>"

definition example_connection :: agent_connection where
  "example_connection =
     \<lparr>c_socketId = ''s1'', c_agentId = ''ag-1'', c_platform = ''linux'', c_connectedAt = 5,
      c_lastSeen = 5, c_status = ''authenticated''\<rparr>"

definition one_agent_server :: server where
  "one_agent_server = empty_server\<lparr>agentConnections := [(''ag-1'', example_connection)]\<rparr>"

text \<open>A message without reactions; a socket with a chat session for user \<open>u1\<close>; a
  submitted message; and collaborators whose every write fails.\<close>

definition fresh_message :: message where
  "fresh_message =
     \<lparr>m_id = ''m1'', m_sender = ''u2'', m_content = ''hi'', m_type = ''text'', m_file = None,
      m_room = ''general'', m_isEdited = False, m_editedAt = None, m_isDeleted = False,
      m_deletedAt = None, m_reactions = [], m_replyTo = None, m_createdAt = Some 7\<rparr>"

definition alice_socket :: socket where
  "alice_socket =
     \<lparr>socket_id = ''s1'', socket_agentId = None, socket_userId = Some ''u1'',
      socket_username = Some ''alice''\<rparr>"

definition hi_message :: send_data where
  "hi_message =
     \<lparr>sd_content = ''hi'', sd_type = [], sd_file = None, sd_room = ''general'', sd_replyTo = []\<rparr>"

definition failing_db :: db where
  "failing_db =
     \<lparr>new_ObjectId = ''m1'', Message_save = (\<lambda>m. Inl (Error ''save failed'')),
      populate_sender = (\<lambda>m. Inl (Error ''no sender'')),
      populate_replyTo = (\<lambda>m. Inr None),
      User_findById = (\<lambda>u. Inr None), setOnlineStatus = (\<lambda>u b. Inr ()),
      jwt_verify = (\<lambda>t. Inr \<lparr>t_userId = ''u1'', t_username = ''alice''\<rparr>),
      User_find_online = Inl (Error ''find failed''),
      getRecentMessages = (\<lambda>n. Inl (Error ''find failed'')),
      MESSAGE_HISTORY_LIMIT = None\<rparr>"

text \<open>A state with three agents on the live connection (statuses \<open>active\<close>,
  \<open>disconnected\<close> and \<open>authenticated\<close>) and two agents in the registry of the request
  routes, with statuses \<open>command_sent\<close> and \<open>authenticated\<close>.\<close>

definition three_agent_server :: server where
  "three_agent_server =
     empty_server\<lparr>agentConnections :=
       [(''ag-2'', \<lparr>c_socketId = ''s2'', c_agentId = ''ag-2'', c_platform = ''linux'',
                   c_connectedAt = 3, c_lastSeen = 4, c_status = ''active''\<rparr>),
        (''ag-3'', \<lparr>c_socketId = ''s3'', c_agentId = ''ag-3'', c_platform = ''linux'',
                   c_connectedAt = 3, c_lastSeen = 4, c_status = ''disconnected''\<rparr>),
        (''ag-1'', example_connection)],
       activeAgents :=
       [(''ag-4'', \<lparr>a_agentId = ''ag-4'', a_platform = ''linux'', a_connectedAt = 3,
                   a_lastSeen = 4, a_status = ''command_sent''\<rparr>),
        (''ag-5'', \<lparr>a_agentId = ''ag-5'', a_platform = ''darwin'', a_connectedAt = 3,
                   a_lastSeen = 4, a_status = ''authenticated''\<rparr>)]\<rparr>"

text \<open>Two more stale handshakes: one without a signature and one with a signature of the
  right length that is not the HMAC.\<close>

definition stale_unsigned_handshake :: auth_data where
  "stale_unsigned_handshake =
     \<lparr>ad_agentId = ''ag-1'', ad_platform = ''linux'', ad_timestamp = 600000,
      ad_signature = []\<rparr>"

definition stale_forged_handshake :: auth_data where
  "stale_forged_handshake =
     \<lparr>ad_agentId = ''ag-1'', ad_platform = ''linux'', ad_timestamp = 600000,
      ad_signature = ones64\<rparr>"

text \<open>A user, and collaborators that accept the token, find the user and record the
  online status, but fail to load the list of online users.\<close>

definition alice_user :: user where
  "alice_user =
     \<lparr>usr_id = ''u1'', usr_username = ''alice'', usr_avatar = ''a.png'', usr_isOnline = False\<rparr>"

definition late_failing_db :: db where
  "late_failing_db =
     \<lparr>new_ObjectId = ''m1'', Message_save = (\<lambda>m. Inl (Error ''save failed'')),
      populate_sender = (\<lambda>m. Inl (Error ''no sender'')),
      populate_replyTo = (\<lambda>m. Inr None),
      User_findById = (\<lambda>u. Inr (Some alice_user)), setOnlineStatus = (\<lambda>u b. Inr ()),
      jwt_verify = (\<lambda>t. Inr \<lparr>t_userId = ''u1'', t_username = ''alice''\<rparr>),
      User_find_online = Inl (Error ''find failed''),
      getRecentMessages = (\<lambda>n. Inl (Error ''find failed'')),
      MESSAGE_HISTORY_LIMIT = None\<rparr>"

section \<open>Properties of the handshake\<close>

subsection \<open>Hexadecimal buffers\<close>

lemma nat_less_16:
  "(d::nat) < 16 \<Longrightarrow> d = 0 \<or> d = 1 \<or> d = 2 \<or> d = 3 \<or> d = 4 \<or> d = 5 \<or> d = 6 \<or> d = 7 \<or> d = 8
     \<or> d = 9 \<or> d = 10 \<or> d = 11 \<or> d = 12 \<or> d = 13 \<or> d = 14 \<or> d = 15"
  by arith

lemma unhex_hexchar: "d < 16 \<Longrightarrow> unhex (hexchar d) = Some d"
  by (drule nat_less_16, elim disjE) (simp_all add: unhex_def hexchar_def hex_digits_def)

lemma byte_hi: "unat (b::byte) div 16 < 16"
proof -
  have "unat b < 2 ^ 8" using unsigned_less [of b] by simp
  then show ?thesis by simp
qed

lemma hex_decode_encode: "hex_decode (hex_encode bs) = bs"
  by (induction bs) (simp_all add: hex_encode_def unhex_hexchar byte_hi)

lemma length_hex_encode: "length (hex_encode bs) = 2 * length bs"
  by (induction bs) (simp_all add: hex_encode_def)

lemma length_word_bytes: "length (word_bytes w) = 32"
  by (simp add: word_bytes_def)

lemma length_hex_decode: "2 * length (hex_decode s) \<le> length s"
  by (induction s rule: hex_decode.induct) (auto split: option.splits)

lemma hex_decode_createSignature:
  "hex_decode (createSignature e data) =
     word_bytes (hmac_sha256 e (SHARED_SECRET e) (stringify e data))"
  by (simp add: createSignature_def digest_hex_def hex_decode_encode)

lemma length_createSignature: "length (createSignature e data) = 64"
  by (simp add: createSignature_def digest_hex_def length_hex_encode length_word_bytes)

lemma createSignature_not_empty: "createSignature e data \<noteq> []"
  using length_createSignature [of e data] by auto

subsection \<open>Signature verification\<close>

text \<open>The comparison throws unless the supplied signature decodes to 32 bytes, and then
  it tells whether these are the bytes of the HMAC.\<close>

lemma verifySignature_handler_eq:
  "verifySignature_handler e data signature =
     (if length (hex_decode signature) \<noteq> 32
      then Inl (Error ''Input buffers must have the same byte length'')
      else Inr (hex_decode signature =
                word_bytes (hmac_sha256 e (SHARED_SECRET e) (stringify e data))))"
  by (simp add: verifySignature_handler_def timingSafeEqual_def hex_decode_createSignature
      length_word_bytes)

text \<open>A signature that gets past the length check of \<^verbatim>\<open>timingSafeEqual\<close> has at least 64
  characters, so it is never the 32-character base64 prefix: the fallback of the request
  route accepts nothing.\<close>

lemma fallback_unreachable:
  assumes "length (hex_decode signature) = 32"
  shows "signature \<noteq> take 32 s"
proof
  assume "signature = take 32 s"
  then have "length signature \<le> 32" by (metis length_take min.cobounded2)
  moreover have "64 \<le> length signature"
    using length_hex_decode [of signature] assms by simp
  ultimately show False by simp
qed

lemma verifySignature_routes_eq:
  "verifySignature_routes e data signature = verifySignature_handler e data signature"
  by (auto simp: verifySignature_routes_def verifySignature_handler_def timingSafeEqual_def
      hex_decode_createSignature length_word_bytes fallback_unreachable split: bool.splits)

lemma verifySignature_own_signature:
  "verifySignature_handler e data (createSignature e data) = Inr True"
  by (simp add: verifySignature_handler_eq hex_decode_createSignature length_word_bytes)

lemma length_ones64: "length (hex_decode ones64) = 32"
  by (simp add: ones64_def unhex_def)

lemma hd_word_bytes_0: "hd (word_bytes 0) = 0"
  by (simp add: word_bytes_def upt_rec [of 0])

lemma ones64_not_zero: "hex_decode ones64 \<noteq> word_bytes 0"
proof
  assume "hex_decode ones64 = word_bytes 0"
  then have "hd (hex_decode ones64) = hd (word_bytes 0)" by simp
  then show False by (simp add: hd_word_bytes_0 ones64_def unhex_def)
qed

subsection \<open>Accepted handshakes carry the HMAC\<close>

lemma agent_authenticate_success:
  assumes "fst (agent_authenticate e sock d st) = [Agent_authenticated sid a t s]"
  shows "hex_decode (ad_signature d)
           = word_bytes (hmac_sha256 e (SHARED_SECRET e) (stringify e (auth_payload d)))"
  using assms
  by (auto simp: agent_authenticate_def verifySignature_handler_eq Date_now_def Let_def
      split: if_splits bool.splits)

lemma post_authenticate_success:
  assumes "fst (post_authenticate e d st) = Authenticated_reply a t s"
  shows "hex_decode (ad_signature d)
           = word_bytes (hmac_sha256 e (SHARED_SECRET e) (stringify e (auth_payload d)))"
  using assms
  by (auto simp: post_authenticate_def verifySignature_routes_eq verifySignature_handler_eq
      Date_now_def Let_def split: if_splits bool.splits)

text \<open>What the two handlers answer to a handshake that carries all four fields, by the
  decoded signature: the generic failure when it is not 32 bytes long, the bad-signature
  failure when it is 32 bytes other than the HMAC, and the acknowledgement when it is the
  HMAC and the timestamp is within the window.\<close>

lemma handshake_wrong_length:
  assumes "\<not> auth_fields_missing d" and "length (hex_decode (ad_signature d)) \<noteq> 32"
  shows "agent_authenticate e sock d st
           = ([Agent_auth_failed (socket_id sock) ''Authentication failed''], sock, st)"
    and "post_authenticate e d st = (Error_reply 500 ''Authentication failed'', st)"
  using assms
  by (simp_all add: agent_authenticate_def post_authenticate_def verifySignature_routes_eq
      verifySignature_handler_eq)

lemma handshake_wrong_bytes:
  assumes "\<not> auth_fields_missing d" and "length (hex_decode (ad_signature d)) = 32"
    and "hex_decode (ad_signature d)
           \<noteq> word_bytes (hmac_sha256 e (SHARED_SECRET e) (stringify e (auth_payload d)))"
  shows "agent_authenticate e sock d st
           = ([Agent_auth_failed (socket_id sock) ''Invalid authentication signature''],
              sock, st)"
    and "post_authenticate e d st
           = (Error_reply 401 ''Invalid authentication signature'', st)"
  using assms
  by (simp_all add: agent_authenticate_def post_authenticate_def verifySignature_routes_eq
      verifySignature_handler_eq)

lemma handshake_accepted:
  assumes "\<not> auth_fields_missing d"
    and "hex_decode (ad_signature d)
           = word_bytes (hmac_sha256 e (SHARED_SECRET e) (stringify e (auth_payload d)))"
    and "\<bar>clock e (ticks st) - ad_timestamp d\<bar> \<le> 300000"
  shows "fst (agent_authenticate e sock d st)
           = [Agent_authenticated (socket_id sock) (ad_agentId d) (clock e (ticks st))
                (createSignature e (ack_payload (ad_agentId d) (clock e (ticks st))))]"
    and "map_of (agentConnections (snd (snd (agent_authenticate e sock d st)))) (ad_agentId d)
           = Some \<lparr>c_socketId = socket_id sock, c_agentId = ad_agentId d,
                   c_platform = ad_platform d, c_connectedAt = clock e (ticks st),
                   c_lastSeen = clock e (ticks st), c_status = ''authenticated''\<rparr>"
    and "fst (post_authenticate e d st)
           = Authenticated_reply (ad_agentId d) (clock e (ticks st))
               (createSignature e (ack_payload (ad_agentId d) (clock e (ticks st))))"
    and "map_of (activeAgents (snd (post_authenticate e d st))) (ad_agentId d)
           = Some \<lparr>a_agentId = ad_agentId d, a_platform = ad_platform d,
                   a_connectedAt = clock e (ticks st), a_lastSeen = clock e (ticks st),
                   a_status = ''authenticated''\<rparr>"
  using assms
  by (simp_all add: agent_authenticate_def post_authenticate_def verifySignature_routes_eq
      verifySignature_handler_eq length_word_bytes Date_now_def Let_def update_conv')

text \<open>
  Claim C1: a handshake succeeds only if its signature is the HMAC-SHA256 of the canonical
  payload, and every other signature is rejected with the bad-signature error. The first
  half holds on both paths (the two lemmas above). The second half fails for a signature
  that does not decode to 32 bytes: \<^verbatim>\<open>timingSafeEqual\<close> throws on the length mismatch, the
  handler's \<^verbatim>\<open>catch\<close> takes over, and the agent gets the generic failure instead of the
  bad-signature one. The theorem evaluates both handlers on the handshake with signature
  \<^verbatim>\<open>abcd\<close>, for every environment, socket and state.
\<close>

theorem handshake_short_signature_generic_failure:
  "agent_authenticate e sock
     \<lparr>ad_agentId = ''ag-1'', ad_platform = ''linux'', ad_timestamp = 1700000000000,
      ad_signature = ''abcd''\<rparr> st
   = ([Agent_auth_failed (socket_id sock) ''Authentication failed''], sock, st)
   \<and> post_authenticate e
     \<lparr>ad_agentId = ''ag-1'', ad_platform = ''linux'', ad_timestamp = 1700000000000,
      ad_signature = ''abcd''\<rparr> st
   = (Error_reply 500 ''Authentication failed'', st)"
  by (simp add: agent_authenticate_def post_authenticate_def auth_fields_missing_def
      verifySignature_routes_eq verifySignature_handler_eq unhex_def)

subsection \<open>The replay window\<close>

lemma agent_authenticate_expired:
  assumes "\<bar>clock e (ticks st) - ad_timestamp d\<bar> > 300000"
  shows "(\<exists>msg. fst (agent_authenticate e sock d st) = [Agent_auth_failed (socket_id sock) msg])
       \<and> fst (snd (agent_authenticate e sock d st)) = sock
       \<and> agentConnections (snd (snd (agent_authenticate e sock d st))) = agentConnections st
       \<and> (\<not> auth_fields_missing d
            \<and> verifySignature_handler e (auth_payload d) (ad_signature d) = Inr True
          \<longrightarrow> fst (agent_authenticate e sock d st)
              = [Agent_auth_failed (socket_id sock) ''Authentication timestamp expired''])"
  using assms
  by (auto simp: agent_authenticate_def Date_now_def Let_def split: sum.splits bool.splits)

lemma post_authenticate_expired:
  assumes "\<bar>clock e (ticks st) - ad_timestamp d\<bar> > 300000"
  shows "(\<exists>code msg. fst (post_authenticate e d st) = Error_reply code msg)
       \<and> activeAgents (snd (post_authenticate e d st)) = activeAgents st
       \<and> (\<not> auth_fields_missing d
            \<and> verifySignature_routes e (auth_payload d) (ad_signature d) = Inr True
          \<longrightarrow> fst (post_authenticate e d st)
              = Error_reply 401 ''Authentication timestamp expired'')"
  using assms
  by (auto simp: post_authenticate_def Date_now_def Let_def split: sum.splits bool.splits)

text \<open>
  Claim C2, as stated: a handshake whose timestamp is more than 300000 ms away from the
  clock is rejected with the timestamp-expired failure whether or not its signature is
  valid. Both handlers verify the signature before they read the clock, so a stale
  handshake with a wrong signature is answered with the bad-signature failure: here the
  timestamp is 1 against a clock of 1000000, and the signature is 64 times the digit 1
  where the HMAC of the example environment is zero.
\<close>

theorem expired_handshake_bad_signature_counterexample:
  "\<bar>clock example_env (ticks empty_server) - 1\<bar> > 300000
   \<and> fst (agent_authenticate example_env example_socket
        \<lparr>ad_agentId = ''ag-1'', ad_platform = ''linux'', ad_timestamp = 1,
         ad_signature = ones64\<rparr> empty_server)
     = [Agent_auth_failed ''s1'' ''Invalid authentication signature'']
   \<and> fst (post_authenticate example_env
        \<lparr>ad_agentId = ''ag-1'', ad_platform = ''linux'', ad_timestamp = 1,
         ad_signature = ones64\<rparr> empty_server)
     = Error_reply 401 ''Invalid authentication signature''"
proof -
  have "ones64 \<noteq> []" by (simp add: ones64_def)
  then show ?thesis
    by (simp add: agent_authenticate_def post_authenticate_def auth_fields_missing_def
        verifySignature_routes_eq verifySignature_handler_eq length_ones64 ones64_not_zero
        example_env_def empty_server_def example_socket_def)
qed

text \<open>
  Claim C2, as amended: a handshake whose timestamp is more than 300000 ms away from the
  clock reading of the handler is rejected and registers no agent, whatever its signature:
  the socket handler emits \<^verbatim>\<open>agent:auth_failed\<close> and leaves the socket and
  \<^verbatim>\<open>agentConnections\<close> as they were, the request route answers with an error status and
  leaves \<^verbatim>\<open>activeAgents\<close> as it was. The failure is the check that rejects first: the
  missing-fields failure (400) when one of the four fields is missing, the bad-signature
  failure (401) when the signature decodes to 32 bytes that are not the HMAC, and the
  timestamp-expired failure (401) when the fields are present and the signature is the
  HMAC. In the first two cases the state is untouched, in the third only the clock was
  read.
\<close>

theorem expired_handshake_rejected:
  assumes "\<bar>clock e (ticks st) - ad_timestamp d\<bar> > 300000"
    and "missing \<longleftrightarrow>
           ad_agentId d = [] \<or> ad_platform d = [] \<or> ad_timestamp d = 0 \<or> ad_signature d = []"
    and "hmac = word_bytes (hmac_sha256 e (SHARED_SECRET e)
           (stringify e (JObj [(''agentId'', JStr (ad_agentId d)),
                               (''platform'', JStr (ad_platform d)),
                               (''timestamp'', JNum (ad_timestamp d))])))"
  shows "(missing \<longrightarrow>
            agent_authenticate e sock d st
              = ([Agent_auth_failed (socket_id sock) ''Missing required authentication fields''],
                 sock, st)
            \<and> post_authenticate e d st
              = (Error_reply 400 ''Missing required authentication fields'', st))
       \<and> (\<not> missing \<and> length (hex_decode (ad_signature d)) = 32
            \<and> hex_decode (ad_signature d) \<noteq> hmac
          \<longrightarrow> agent_authenticate e sock d st
              = ([Agent_auth_failed (socket_id sock) ''Invalid authentication signature''],
                 sock, st)
            \<and> post_authenticate e d st
              = (Error_reply 401 ''Invalid authentication signature'', st))
       \<and> (\<not> missing \<and> hex_decode (ad_signature d) = hmac
          \<longrightarrow> agent_authenticate e sock d st
              = ([Agent_auth_failed (socket_id sock) ''Authentication timestamp expired''],
                 sock, st\<lparr>ticks := Suc (ticks st)\<rparr>)
            \<and> post_authenticate e d st
              = (Error_reply 401 ''Authentication timestamp expired'',
                 st\<lparr>ticks := Suc (ticks st)\<rparr>))
       \<and> (\<exists>msg. fst (agent_authenticate e sock d st) = [Agent_auth_failed (socket_id sock) msg])
       \<and> fst (snd (agent_authenticate e sock d st)) = sock
       \<and> agentConnections (snd (snd (agent_authenticate e sock d st))) = agentConnections st
       \<and> (\<exists>code msg. fst (post_authenticate e d st) = Error_reply code msg \<and> 400 \<le> code)
       \<and> activeAgents (snd (post_authenticate e d st)) = activeAgents st"
proof -
  have m: "auth_fields_missing d \<longleftrightarrow> missing"
    using assms(2) by (simp add: auth_fields_missing_def)
  have len: "length hmac = 32"
    by (simp add: assms(3) length_word_bytes)
  have v: "verifySignature_handler e (auth_payload d) (ad_signature d)
             = (if length (hex_decode (ad_signature d)) \<noteq> 32
                then Inl (Error ''Input buffers must have the same byte length'')
                else Inr (hex_decode (ad_signature d) = hmac))"
    by (simp add: verifySignature_handler_eq assms(3) auth_payload_def)
  have r: "verifySignature_routes e (auth_payload d) (ad_signature d)
             = verifySignature_handler e (auth_payload d) (ad_signature d)"
    by (rule verifySignature_routes_eq)
  have absent: "agent_authenticate e sock d st
              = ([Agent_auth_failed (socket_id sock) ''Missing required authentication fields''],
                 sock, st)
            \<and> post_authenticate e d st
              = (Error_reply 400 ''Missing required authentication fields'', st)"
    if "missing"
    using that by (simp add: agent_authenticate_def post_authenticate_def m)
  have wrong: "agent_authenticate e sock d st
              = ([Agent_auth_failed (socket_id sock) ''Invalid authentication signature''],
                 sock, st)
            \<and> post_authenticate e d st
              = (Error_reply 401 ''Invalid authentication signature'', st)"
    if "\<not> missing" "length (hex_decode (ad_signature d)) = 32"
       "hex_decode (ad_signature d) \<noteq> hmac"
    using that by (simp add: agent_authenticate_def post_authenticate_def m v r)
  have stale: "agent_authenticate e sock d st
              = ([Agent_auth_failed (socket_id sock) ''Authentication timestamp expired''],
                 sock, st\<lparr>ticks := Suc (ticks st)\<rparr>)
            \<and> post_authenticate e d st
              = (Error_reply 401 ''Authentication timestamp expired'',
                 st\<lparr>ticks := Suc (ticks st)\<rparr>)"
    if "\<not> missing" "hex_decode (ad_signature d) = hmac"
    using that assms(1) len
    by (simp add: agent_authenticate_def post_authenticate_def m v r Date_now_def Let_def)
  have socket: "(\<exists>msg. fst (agent_authenticate e sock d st)
                         = [Agent_auth_failed (socket_id sock) msg])
       \<and> fst (snd (agent_authenticate e sock d st)) = sock
       \<and> agentConnections (snd (snd (agent_authenticate e sock d st))) = agentConnections st"
    using assms(1)
    by (auto simp: agent_authenticate_def m v Date_now_def Let_def split: bool.splits)
  have http: "(\<exists>code msg. fst (post_authenticate e d st) = Error_reply code msg \<and> 400 \<le> code)
       \<and> activeAgents (snd (post_authenticate e d st)) = activeAgents st"
    using assms(1)
    by (auto simp: post_authenticate_def m v r Date_now_def Let_def split: bool.splits)
  show ?thesis
    using absent wrong stale socket http by blast
qed

theorem expired_handshake_rejected_witness:
  "\<bar>clock example_env (ticks empty_server) - ad_timestamp stale_handshake\<bar> > 300000
   \<and> agent_authenticate example_env example_socket stale_handshake empty_server
       = ([Agent_auth_failed ''s1'' ''Authentication timestamp expired''], example_socket,
          empty_server\<lparr>ticks := 1\<rparr>)
   \<and> post_authenticate example_env stale_handshake empty_server
       = (Error_reply 401 ''Authentication timestamp expired'', empty_server\<lparr>ticks := 1\<rparr>)
   \<and> agent_authenticate example_env example_socket stale_forged_handshake empty_server
       = ([Agent_auth_failed ''s1'' ''Invalid authentication signature''], example_socket,
          empty_server)
   \<and> post_authenticate example_env stale_forged_handshake empty_server
       = (Error_reply 401 ''Invalid authentication signature'', empty_server)
   \<and> agent_authenticate example_env example_socket stale_unsigned_handshake empty_server
       = ([Agent_auth_failed ''s1'' ''Missing required authentication fields''], example_socket,
          empty_server)
   \<and> post_authenticate example_env stale_unsigned_handshake empty_server
       = (Error_reply 400 ''Missing required authentication fields'', empty_server)"
proof -
  have h: "\<bar>clock example_env (ticks empty_server) - ad_timestamp stale_handshake\<bar> > 300000"
    by (simp add: example_env_def empty_server_def stale_handshake_def)
  have h2: "\<bar>clock example_env (ticks empty_server) - ad_timestamp stale_forged_handshake\<bar>
              > 300000"
    by (simp add: example_env_def empty_server_def stale_forged_handshake_def)
  have h3: "\<bar>clock example_env (ticks empty_server) - ad_timestamp stale_unsigned_handshake\<bar>
              > 300000"
    by (simp add: example_env_def empty_server_def stale_unsigned_handshake_def)
  have p: "auth_payload stale_handshake
      = JObj [(''agentId'', JStr ''ag-1''), (''platform'', JStr ''linux''),
               (''timestamp'', JNum 600000)]"
    by (simp add: auth_payload_def stale_handshake_def)
  have m: "\<not> auth_fields_missing stale_handshake"
    by (simp add: auth_fields_missing_def stale_handshake_def createSignature_not_empty)
  have v: "hex_decode (ad_signature stale_handshake)
             = word_bytes (hmac_sha256 example_env (SHARED_SECRET example_env)
                 (stringify example_env (auth_payload stale_handshake)))"
    unfolding p by (simp add: stale_handshake_def hex_decode_createSignature)
  have f: "ad_agentId stale_handshake = ''ag-1''" "ad_platform stale_handshake = ''linux''"
    "ad_timestamp stale_handshake = 600000"
    "ad_agentId stale_forged_handshake = ''ag-1''"
    "ad_platform stale_forged_handshake = ''linux''"
    "ad_timestamp stale_forged_handshake = 600000"
    "ad_signature stale_forged_handshake = ones64"
    "ad_agentId stale_unsigned_handshake = ''ag-1''"
    "ad_platform stale_unsigned_handshake = ''linux''"
    "ad_timestamp stale_unsigned_handshake = 600000"
    "ad_signature stale_unsigned_handshake = []"
    by (simp_all add: stale_handshake_def stale_forged_handshake_def
        stale_unsigned_handshake_def)
  have m2: "\<not> auth_fields_missing stale_forged_handshake"
    by (simp add: auth_fields_missing_def stale_forged_handshake_def ones64_def)
  have v2: "length (hex_decode (ad_signature stale_forged_handshake)) = 32"
    "hex_decode (ad_signature stale_forged_handshake)
       \<noteq> word_bytes (hmac_sha256 example_env (SHARED_SECRET example_env)
                 (stringify example_env (auth_payload stale_forged_handshake)))"
    using ones64_not_zero
    by (simp_all add: stale_forged_handshake_def length_ones64 example_env_def)
  have m3: "auth_fields_missing stale_unsigned_handshake"
    by (simp add: auth_fields_missing_def stale_unsigned_handshake_def)
  have s: "socket_id example_socket = ''s1''" "ticks empty_server = 0"
    by (simp_all add: example_socket_def empty_server_def)
  have direct:
    "agent_authenticate example_env example_socket stale_handshake empty_server
       = ([Agent_auth_failed ''s1'' ''Authentication timestamp expired''], example_socket,
          empty_server\<lparr>ticks := 1\<rparr>)"
    "post_authenticate example_env stale_forged_handshake empty_server
       = (Error_reply 401 ''Invalid authentication signature'', empty_server)"
    "agent_authenticate example_env example_socket stale_unsigned_handshake empty_server
       = ([Agent_auth_failed ''s1'' ''Missing required authentication fields''], example_socket,
          empty_server)"
    using h m m2 m3 v v2
    by (simp_all add: agent_authenticate_def post_authenticate_def verifySignature_routes_eq
        verifySignature_handler_eq length_word_bytes Date_now_def s)
  show ?thesis
    using direct h m v [unfolded p] m2 v2
      expired_handshake_rejected [OF h refl refl, where sock = example_socket]
      expired_handshake_rejected [OF h2 refl refl, where sock = example_socket]
      expired_handshake_rejected [OF h3 refl refl, where sock = example_socket]
    by (simp add: s f auth_fields_missing_def auth_payload_def)
qed

section \<open>Properties of command dispatch\<close>

text \<open>
  Claim C4: a dispatch that names an agent without a registered connection fails with the
  agent-not-found error and leaves the command tables as they were. Over the live
  connection \<^verbatim>\<open>sendCommandToAgent\<close> throws \<^verbatim>\<open>Agent not found\<close> and the whole state is
  unchanged; over HTTP the state is unchanged as well, and the reply is the 404
  \<^verbatim>\<open>Agent not found or not authenticated\<close> for a request that carries agentId, module and
  action (a request without them is answered 400 before the registry is consulted).
\<close>

theorem dispatch_unknown_agent:
  "(map_of (agentConnections st) agentId = None \<longrightarrow>
      sendCommandToAgent e io agentId command st
        = (Inl (Error (''Agent not found: '' @ agentId)), [], st))
   \<and> (map_of (activeAgents st) (q_agentId body) = None \<longrightarrow>
        snd (post_command e body st) = st
        \<and> (q_agentId body \<noteq> [] \<and> q_module body \<noteq> [] \<and> q_action body \<noteq> [] \<longrightarrow>
             fst (post_command e body st)
               = Error_reply 404 ''Agent not found or not authenticated''))"
  by (simp add: sendCommandToAgent_def post_command_def)

theorem dispatch_unknown_agent_witness:
  "map_of (agentConnections empty_server) ''ag-1'' = None
   \<and> sendCommandToAgent example_env [] ''ag-1'' listFiles_command empty_server
        = (Inl (Error ''Agent not found: ag-1''), [], empty_server)
   \<and> map_of (activeAgents empty_server) (q_agentId listFiles_request) = None
   \<and> post_command example_env listFiles_request empty_server
        = (Error_reply 404 ''Agent not found or not authenticated'', empty_server)"
proof -
  have a: "map_of (agentConnections empty_server) ''ag-1'' = None"
    by (simp add: empty_server_def)
  have b: "map_of (activeAgents empty_server) (q_agentId listFiles_request) = None"
    by (simp add: empty_server_def)
  have c: "q_agentId listFiles_request \<noteq> [] \<and> q_module listFiles_request \<noteq> []
           \<and> q_action listFiles_request \<noteq> []"
    by (simp add: listFiles_request_def)
  show ?thesis
    using a b c
      dispatch_unknown_agent [of empty_server "''ag-1''" example_env "[]" listFiles_command
        listFiles_request]
    by (simp add: prod_eq_iff)
qed

text \<open>
  Claim C5: a response whose commandId matches no stored command is rejected by
  POST /response with the 404 \<^verbatim>\<open>Command not found\<close> and the state, in particular
  \<^verbatim>\<open>agentResponses\<close>, is unchanged (for a body that carries commandId, agentId and status);
  the socket event response:command emits nothing for it and keeps nothing of it: the
  state afterwards differs from the state before at most in \<^verbatim>\<open>agentConnections\<close> and in
  the number of clock readings.
\<close>

theorem unknown_response_paths:
  "(map_of (agentCommands st) (r_commandId body) = None \<longrightarrow>
      snd (post_response e body st) = st
      \<and> (\<not> response_fields_missing body \<longrightarrow>
           fst (post_response e body st) = Error_reply 404 ''Command not found''))
   \<and> (map_of (pendingCommands st) (r_commandId resp) = None \<longrightarrow>
        fst (response_command e resp st) = []
        \<and> snd (response_command e resp st)
            = st\<lparr>agentConnections := agentConnections (snd (response_command e resp st)),
                 ticks := ticks (snd (response_command e resp st))\<rparr>)"
  by (simp add: post_response_def response_command_def Date_now_def Let_def
      split: option.splits)

theorem unknown_response_paths_witness:
  "map_of (agentCommands empty_server) (r_commandId unknown_response) = None
   \<and> post_response example_env unknown_response empty_server
       = (Error_reply 404 ''Command not found'', empty_server)
   \<and> map_of (pendingCommands empty_server) (r_commandId unknown_response) = None
   \<and> response_command example_env unknown_response empty_server = ([], empty_server)"
proof -
  have a: "map_of (agentCommands empty_server) (r_commandId unknown_response) = None"
    by (simp add: empty_server_def)
  have b: "map_of (pendingCommands empty_server) (r_commandId unknown_response) = None"
    by (simp add: empty_server_def)
  have c: "\<not> response_fields_missing unknown_response"
    by (simp add: response_fields_missing_def unknown_response_def)
  have d: "response_command example_env unknown_response empty_server = ([], empty_server)"
    by (simp add: response_command_def c empty_server_def)
  show ?thesis
    using a b c d
      unknown_response_paths [of empty_server unknown_response example_env unknown_response]
    by (simp add: prod_eq_iff)
qed

text \<open>
  Claim C9: when the registry has an entry for the agent but its socket is not among the
  live sockets, \<^verbatim>\<open>sendCommandToAgent\<close> throws \<^verbatim>\<open>Agent socket not found\<close>, a message
  different from \<^verbatim>\<open>Agent not found\<close>, emits nothing, and has by then stored the command
  under its id in \<^verbatim>\<open>pendingCommands\<close>: the fields of the command as passed, the timestamp
  of the first clock reading, the hash of id, action and secret, status \<^verbatim>\<open>sent\<close> and
  the second clock reading as \<^verbatim>\<open>sentAt\<close>.
\<close>

theorem stale_socket_dispatch:
  assumes "map_of (agentConnections st) agentId = Some agent"
    and "c_socketId agent \<notin> set io"
  shows "sendCommandToAgent e io agentId command st
       = (Inl (Error (''Agent socket not found: '' @ agentId)), [],
          st\<lparr>ticks := Suc (Suc (ticks st)),
             pendingCommands :=
               AList.update (cmd_id command)
                 \<lparr>cmd_id = cmd_id command, cmd_agentId = cmd_agentId command,
                  cmd_module = cmd_module command, cmd_action = cmd_action command,
                  cmd_params = cmd_params command, cmd_priority = cmd_priority command,
                  ac_timestamp = clock e (ticks st),
                  ac_authHash = digest_hex (sha256 e
                    (cmd_id command @ cmd_action command @ SHARED_SECRET e)),
                  pc_status = ''sent'', pc_sentAt = clock e (Suc (ticks st)),
                  pc_completedAt = None, pc_response = None\<rparr>
                 (pendingCommands st)\<rparr>)
     \<and> map_of (pendingCommands (snd (snd (sendCommandToAgent e io agentId command st))))
         (cmd_id command)
       = Some \<lparr>cmd_id = cmd_id command, cmd_agentId = cmd_agentId command,
               cmd_module = cmd_module command, cmd_action = cmd_action command,
               cmd_params = cmd_params command, cmd_priority = cmd_priority command,
               ac_timestamp = clock e (ticks st),
               ac_authHash = digest_hex (sha256 e
                 (cmd_id command @ cmd_action command @ SHARED_SECRET e)),
               pc_status = ''sent'', pc_sentAt = clock e (Suc (ticks st)),
               pc_completedAt = None, pc_response = None\<rparr>
     \<and> ''Agent socket not found: '' @ agentId \<noteq> ''Agent not found: '' @ agentId"
  using assms
  by (simp add: sendCommandToAgent_def Date_now_def Let_def update_conv' pending_of_def
      authenticate_command_def auth_hash_def)

theorem stale_socket_dispatch_witness:
  "map_of (agentConnections one_agent_server) ''ag-1'' = Some example_connection
   \<and> c_socketId example_connection \<notin> set []
   \<and> sendCommandToAgent example_env [] ''ag-1'' listFiles_command one_agent_server
       = (Inl (Error ''Agent socket not found: ag-1''), [],
          one_agent_server\<lparr>ticks := 2,
            pendingCommands :=
              [(''c1'',
                \<lparr>cmd_id = ''c1'', cmd_agentId = ''ag-1'', cmd_module = ''fs'',
                 cmd_action = ''listFiles'', cmd_params = JObj [], cmd_priority = ''normal'',
                 ac_timestamp = 1000000, ac_authHash = digest_hex 0,
                 pc_status = ''sent'', pc_sentAt = 1000001,
                 pc_completedAt = None, pc_response = None\<rparr>)]\<rparr>)"
proof -
  have a: "map_of (agentConnections one_agent_server) ''ag-1'' = Some example_connection"
    by (simp add: one_agent_server_def empty_server_def)
  have b: "c_socketId example_connection \<notin> set []" by simp
  have c: "ticks one_agent_server = 0" "pendingCommands one_agent_server = []"
    by (simp_all add: one_agent_server_def empty_server_def)
  have d: "fst (sendCommandToAgent example_env [] ''ag-1'' listFiles_command one_agent_server)
             = Inl (Error ''Agent socket not found: ag-1'')"
    "map fst (pendingCommands (snd (snd (sendCommandToAgent example_env [] ''ag-1''
        listFiles_command one_agent_server)))) = [''c1'']"
    by (simp_all add: sendCommandToAgent_def one_agent_server_def empty_server_def
        example_connection_def listFiles_command_def Date_now_def Let_def)
  show ?thesis
    using a d stale_socket_dispatch [OF a b, of example_env listFiles_command]
    by (simp add: c listFiles_command_def example_env_def numeral_2_eq_2)
qed

text \<open>
  Claim C10: a response:command event that carries its required fields and whose commandId
  is unknown still refreshes the connection of the agent it names: \<^verbatim>\<open>lastSeen\<close> becomes the
  clock reading and \<^verbatim>\<open>status\<close> becomes \<^verbatim>\<open>active\<close>, while \<^verbatim>\<open>pendingCommands\<close> and the timers
  stay as they were and nothing is emitted.
\<close>

theorem unknown_response_refreshes_agent:
  assumes "\<not> response_fields_missing resp"
    and "map_of (pendingCommands st) (r_commandId resp) = None"
    and "map_of (agentConnections st) (r_agentId resp) = Some agent"
  shows "response_command e resp st
       = ([], st\<lparr>ticks := Suc (ticks st),
                 agentConnections :=
                   AList.update (r_agentId resp)
                     (agent\<lparr>c_lastSeen := clock e (ticks st), c_status := ''active''\<rparr>)
                     (agentConnections st)\<rparr>)
     \<and> map_of (agentConnections (snd (response_command e resp st))) (r_agentId resp)
       = Some (agent\<lparr>c_lastSeen := clock e (ticks st), c_status := ''active''\<rparr>)
     \<and> pendingCommands (snd (response_command e resp st)) = pendingCommands st
     \<and> timers (snd (response_command e resp st)) = timers st"
  using assms
  by (simp add: response_command_def Date_now_def Let_def update_conv')

theorem unknown_response_refreshes_agent_witness:
  "\<not> response_fields_missing unknown_response
   \<and> map_of (pendingCommands one_agent_server) (r_commandId unknown_response) = None
   \<and> map_of (agentConnections one_agent_server) (r_agentId unknown_response)
       = Some example_connection
   \<and> map_of (agentConnections (snd (response_command example_env unknown_response
        one_agent_server))) ''ag-1''
       = Some (example_connection\<lparr>c_lastSeen := 1000000, c_status := ''active''\<rparr>)
   \<and> pendingCommands (snd (response_command example_env unknown_response one_agent_server)) = []"
proof -
  have a: "\<not> response_fields_missing unknown_response"
    by (simp add: response_fields_missing_def unknown_response_def)
  have b: "map_of (pendingCommands one_agent_server) (r_commandId unknown_response) = None"
    by (simp add: one_agent_server_def empty_server_def)
  have c: "map_of (agentConnections one_agent_server) (r_agentId unknown_response)
             = Some example_connection"
    by (simp add: one_agent_server_def empty_server_def unknown_response_def)
  have d: "r_agentId unknown_response = ''ag-1''" by (simp add: unknown_response_def)
  have e: "clock example_env (ticks one_agent_server) = 1000000"
    by (simp add: example_env_def one_agent_server_def empty_server_def)
  have f: "pendingCommands one_agent_server = []"
    by (simp add: one_agent_server_def empty_server_def)
  show ?thesis
    using a b c unknown_response_refreshes_agent [OF a b c, of example_env]
    by (simp add: d e f update_conv')
qed

section \<open>Properties of reactions\<close>

lemma map_of_reactions_filter:
  "map_of (map (\<lambda>r. (rx_user r, rx_emoji r)) (filter (\<lambda>r. \<not> rx_user r = u) rs)) v
     = (if v = u then None else map_of (map (\<lambda>r. (rx_user r, rx_emoji r)) rs) v)"
  by (induction rs) auto

lemma emoji_of_addReaction:
  "emoji_of (addReaction now u emoji this) v = (if v = u then Some emoji else emoji_of this v)"
  by (auto simp: emoji_of_def addReaction_def map_of_append map_of_reactions_filter
      map_add_def split: option.splits)

lemma emoji_of_removeReaction:
  "emoji_of (removeReaction u this) v = (if v = u then None else emoji_of this v)"
  by (simp add: emoji_of_def removeReaction_def map_of_reactions_filter)

lemma one_reaction_addReaction:
  "one_reaction_per_user this \<Longrightarrow> one_reaction_per_user (addReaction now u emoji this)"
  by (auto simp: one_reaction_per_user_def addReaction_def distinct_map_filter)

lemma one_reaction_removeReaction:
  "one_reaction_per_user this \<Longrightarrow> one_reaction_per_user (removeReaction u this)"
  by (simp add: one_reaction_per_user_def removeReaction_def distinct_map_filter)

lemma one_reaction_apply_call:
  "one_reaction_per_user this \<Longrightarrow> one_reaction_per_user (apply_call this c)"
  by (cases c) (simp_all add: one_reaction_addReaction one_reaction_removeReaction)

lemma one_reaction_apply_calls:
  "one_reaction_per_user this \<Longrightarrow> one_reaction_per_user (apply_calls this calls)"
  unfolding apply_calls_def
  by (induction calls arbitrary: this) (simp_all add: one_reaction_apply_call)

lemma emoji_of_apply_calls:
  "emoji_of (apply_calls this calls) u = latest_emoji u calls (emoji_of this u)"
  unfolding apply_calls_def
proof (induction calls arbitrary: this)
  case Nil
  then show ?case by simp
next
  case (Cons c calls)
  then show ?case
    by (cases c) (simp_all add: emoji_of_addReaction emoji_of_removeReaction)
qed

lemma entry_of_user:
  assumes "one_reaction_per_user this" and "r \<in> set (m_reactions this)"
  shows "emoji_of this (rx_user r) = Some (rx_emoji r)"
proof -
  have "distinct (map fst (map (\<lambda>r. (rx_user r, rx_emoji r)) (m_reactions this)))"
    using assms(1) by (simp add: one_reaction_per_user_def comp_def)
  moreover have "(rx_user r, rx_emoji r) \<in> set (map (\<lambda>r. (rx_user r, rx_emoji r)) (m_reactions this))"
    using assms(2) by auto
  ultimately show ?thesis
    unfolding emoji_of_def by (rule map_of_is_SomeI)
qed

text \<open>
  Claim C6: for every sequence of \<^verbatim>\<open>addReaction\<close> (and \<^verbatim>\<open>removeReaction\<close>) calls on a message
  that holds at most one reaction per user, as a new message with its empty list does, the
  list holds at most one entry per user after the calls (hence after every prefix of them),
  and every entry in it carries the emoji its user applied last.
\<close>

theorem reactions_one_per_user:
  assumes "one_reaction_per_user this"
  shows "one_reaction_per_user (apply_calls this calls)
       \<and> (\<forall>n. one_reaction_per_user (apply_calls this (take n calls)))
       \<and> (\<forall>r \<in> set (m_reactions (apply_calls this calls)).
            latest_emoji (rx_user r) calls (emoji_of this (rx_user r)) = Some (rx_emoji r))
       \<and> (\<forall>u. emoji_of (apply_calls this calls) u = latest_emoji u calls (emoji_of this u))"
proof -
  have inv: "one_reaction_per_user (apply_calls this cs)" for cs
    using assms by (rule one_reaction_apply_calls)
  have "latest_emoji (rx_user r) calls (emoji_of this (rx_user r)) = Some (rx_emoji r)"
    if "r \<in> set (m_reactions (apply_calls this calls))" for r
    using entry_of_user [OF inv that] by (simp add: emoji_of_apply_calls)
  then show ?thesis using inv by (simp add: emoji_of_apply_calls)
qed

theorem reactions_one_per_user_witness:
  "one_reaction_per_user fresh_message
   \<and> m_reactions (apply_calls fresh_message [Add 1 ''u1'' ''thumbsup'', Add 2 ''u1'' ''joy''])
       = [\<lparr>rx_user = ''u1'', rx_emoji = ''joy'', rx_createdAt = 2\<rparr>]
   \<and> one_reaction_per_user
        (apply_calls fresh_message [Add 1 ''u1'' ''thumbsup'', Add 2 ''u1'' ''joy''])
   \<and> latest_emoji ''u1'' [Add 1 ''u1'' ''thumbsup'', Add 2 ''u1'' ''joy'']
        (emoji_of fresh_message ''u1'') = Some ''joy''"
proof -
  have a: "one_reaction_per_user fresh_message"
    by (simp add: one_reaction_per_user_def fresh_message_def)
  have b: "m_reactions (apply_calls fresh_message [Add 1 ''u1'' ''thumbsup'', Add 2 ''u1'' ''joy''])
       = [\<lparr>rx_user = ''u1'', rx_emoji = ''joy'', rx_createdAt = 2\<rparr>]"
    by (simp add: apply_calls_def addReaction_def fresh_message_def)
  show ?thesis
    using a b reactions_one_per_user [OF a, of "[Add 1 ''u1'' ''thumbsup'', Add 2 ''u1'' ''joy'']"]
    by simp
qed

section \<open>Properties of the chat events\<close>

text \<open>
  Claim C7: when saving a submitted message fails, the handler does nothing but report
  \<^verbatim>\<open>Failed to send message\<close> on the sender's own socket; and whenever \<^verbatim>\<open>newMessage\<close> is
  emitted to a room, the save came first and succeeded, and the broadcast is the last
  thing the handler does.
\<close>

theorem persistence_failure_not_broadcast:
  "(truthy (socket_userId sock)
      \<and> Message_save d (new_Message d (the (socket_userId sock)) data) = Inl err \<longrightarrow>
        sendMessage d sock data
          = [Db_save (new_Message d (the (socket_userId sock)) data),
             Emit_error (socket_id sock) ''Failed to send message''])
   \<and> (Emit_newMessage room fm \<in> set (sendMessage d sock data) \<longrightarrow>
        (\<exists>saved. Message_save d (new_Message d (the (socket_userId sock)) data) = Inr saved
                 \<and> f_id fm = m_id saved)
        \<and> hd (sendMessage d sock data) = Db_save (new_Message d (the (socket_userId sock)) data)
        \<and> last (sendMessage d sock data) = Emit_newMessage room fm)"
  by (auto simp: sendMessage_def Let_def format_message_def split: sum.splits if_splits)

theorem persistence_failure_not_broadcast_witness:
  "truthy (socket_userId alice_socket)
   \<and> Message_save failing_db (new_Message failing_db (the (socket_userId alice_socket)) hi_message)
       = Inl (Error ''save failed'')
   \<and> sendMessage failing_db alice_socket hi_message
       = [Db_save (new_Message failing_db ''u1'' hi_message),
          Emit_error ''s1'' ''Failed to send message'']
   \<and> (\<forall>room fm. Emit_newMessage room fm \<notin> set (sendMessage failing_db alice_socket hi_message))"
proof -
  have a: "truthy (socket_userId alice_socket)" by (simp add: truthy_def alice_socket_def)
  have b: "Message_save failing_db
             (new_Message failing_db (the (socket_userId alice_socket)) hi_message)
           = Inl (Error ''save failed'')"
    by (simp add: failing_db_def)
  have c: "the (socket_userId alice_socket) = ''u1''" "socket_id alice_socket = ''s1''"
    by (simp_all add: alice_socket_def)
  have "sendMessage failing_db alice_socket hi_message
       = [Db_save (new_Message failing_db ''u1'' hi_message),
          Emit_error ''s1'' ''Failed to send message'']"
    using a b persistence_failure_not_broadcast [of alice_socket failing_db hi_message
        "Error ''save failed''"]
    by (simp add: c)
  then show ?thesis using a b by simp
qed

lemma disconnect_with_session:
  assumes "truthy (socket_userId sock)"
    and "map_of (activeUsers st) (socket_id sock) = Some user"
  shows "disconnect_memory sock st
       = ([Emit_userLeft (socket_id sock) (u_userId user) (u_username user)],
          st\<lparr>activeUsers := AList.delete (socket_id sock) (activeUsers st)\<rparr>)"
    and "snd (disconnect d sock st)
       = st\<lparr>activeUsers := AList.delete (socket_id sock) (activeUsers st)\<rparr>"
  using assms
  by (auto simp: disconnect_def disconnect_memory_def Let_def split: sum.splits option.splits)

subsection \<open>Authentication and disconnect\<close>

lemma authenticate_announced:
  "list_ex is_userJoined (fst (authenticate d sock token st)) \<longleftrightarrow> \<not> fails_before_session d token"
  by (auto simp: authenticate_def fails_before_session_def Let_def
      split: sum.splits option.splits)

lemma authenticate_registry:
  "map_of (activeUsers (snd (snd (authenticate d sock token st)))) (socket_id sock)
     = (if fails_before_session d token then map_of (activeUsers st) (socket_id sock)
        else Some \<lparr>u_userId = t_userId (projr (jwt_verify d token)),
                   u_username = t_username (projr (jwt_verify d token)),
                   u_socketId = socket_id sock\<rparr>)"
  by (auto simp: authenticate_def fails_before_session_def Let_def update_conv'
      split: sum.splits option.splits)

text \<open>
  Claim C8, as stated: the disconnect of a connection that never completed a successful
  chat authentication is a no-op. In the database variant the handler registers the
  session and announces the user before it loads the list of online users; when that load
  fails, the authentication ends in \<^verbatim>\<open>authError\<close> and \<^verbatim>\<open>socket.disconnect()\<close> with the
  session in place, and the disconnect handler looks the user up, sets the user offline
  and emits \<^verbatim>\<open>userLeft\<close>.
\<close>

theorem late_failure_disconnect_counterexample:
  "fst (authenticate late_failing_db example_socket ''token'' empty_server)
     = [Db_findById ''u1'', Db_setOnlineStatus ''u1'' True, Socket_join ''s1'' ''general'',
        Emit_userJoined ''s1'' ''u1'' ''alice'' ''a.png'' True, Db_find_online,
        Emit_authError ''s1'' ''Invalid token'', Socket_disconnect ''s1'']
   \<and> disconnect late_failing_db
        (fst (snd (authenticate late_failing_db example_socket ''token'' empty_server)))
        (snd (snd (authenticate late_failing_db example_socket ''token'' empty_server)))
     = ([Db_findById ''u1'', Db_setOnlineStatus ''u1'' False,
         Emit_userLeft ''s1'' ''u1'' ''alice''], empty_server)"
  by (simp add: authenticate_def disconnect_def late_failing_db_def example_socket_def
      empty_server_def alice_user_def truthy_def Let_def)

text \<open>
  Claim C8, as amended: the disconnect of a connection without a registered session does
  nothing in either variant of the handler (no \<^verbatim>\<open>userLeft\<close>, no call to the persistence
  collaborators, the state unchanged). For a new connection (\<^verbatim>\<open>socket.userId\<close> unset, no
  registry entry under its id) this is so when no authentication was attempted; when a
  database-variant authentication failed before the session was registered, which are
  exactly the attempts that emit no \<^verbatim>\<open>userJoined\<close> (token rejected, user lookup failed or
  found nobody, online-status update failed); and when an in-memory-variant authentication
  failed at all. Such an attempt ends with \<^verbatim>\<open>authError\<close> and \<^verbatim>\<open>socket.disconnect()\<close> and
  leaves the state as it was.
\<close>

theorem disconnect_unregistered_connection:
  assumes "socket_userId sock = None"
    and "map_of (activeUsers st) (socket_id sock) = None"
  shows "disconnect d sock st = ([], st) \<and> disconnect_memory sock st = ([], st)
       \<and> (fails_before_session d token \<longrightarrow>
            snd (snd (authenticate d sock token st)) = st
            \<and> list_ex is_authError (fst (authenticate d sock token st))
            \<and> last (fst (authenticate d sock token st)) = Socket_disconnect (socket_id sock)
            \<and> disconnect d (fst (snd (authenticate d sock token st)))
                 (snd (snd (authenticate d sock token st))) = ([], st))
       \<and> (\<not> list_ex is_userJoined (fst (authenticate d sock token st)) \<longrightarrow>
            fails_before_session d token)
       \<and> (list_ex is_authError (fst (authenticate_memory d messages sock token st)) \<longrightarrow>
            authenticate_memory d messages sock token st
              = ([Emit_authError (socket_id sock) ''Invalid token'',
                  Socket_disconnect (socket_id sock)], sock, st)
            \<and> disconnect_memory (fst (snd (authenticate_memory d messages sock token st)))
                 (snd (snd (authenticate_memory d messages sock token st))) = ([], st))"
proof -
  have fresh: "disconnect d sock st = ([], st)" "disconnect_memory sock st = ([], st)"
    using assms by (simp_all add: disconnect_def disconnect_memory_def truthy_def)
  have early: "snd (snd (authenticate d sock token st)) = st
            \<and> list_ex is_authError (fst (authenticate d sock token st))
            \<and> last (fst (authenticate d sock token st)) = Socket_disconnect (socket_id sock)
            \<and> disconnect d (fst (snd (authenticate d sock token st)))
                 (snd (snd (authenticate d sock token st))) = ([], st)"
    if f: "fails_before_session d token"
  proof (cases "jwt_verify d token")
    case (Inl err)
    then show ?thesis
      using assms by (simp add: authenticate_def disconnect_def truthy_def)
  next
    case (Inr decoded)
    note verified = this
    show ?thesis
    proof (cases "User_findById d (t_userId decoded)")
      case (Inl err)
      then show ?thesis
        using assms verified by (simp add: authenticate_def disconnect_def truthy_def)
    next
      case (Inr found)
      note looked_up = this
      show ?thesis
      proof (cases found)
        case None
        then show ?thesis
          using assms verified looked_up
          by (simp add: authenticate_def disconnect_def truthy_def)
      next
        case (Some user)
        then obtain err where "setOnlineStatus d user True = Inl err"
          using f verified looked_up
          by (auto simp: fails_before_session_def split: sum.splits)
        then show ?thesis
          using assms verified looked_up Some
          by (simp add: authenticate_def disconnect_def Let_def)
      qed
    qed
  qed
  have announced: "fails_before_session d token"
    if "\<not> list_ex is_userJoined (fst (authenticate d sock token st))"
    using that
    by (simp add: authenticate_def fails_before_session_def Let_def
        split: sum.splits option.splits)
  have memory: "authenticate_memory d messages sock token st
              = ([Emit_authError (socket_id sock) ''Invalid token'',
                  Socket_disconnect (socket_id sock)], sock, st)
            \<and> disconnect_memory (fst (snd (authenticate_memory d messages sock token st)))
                 (snd (snd (authenticate_memory d messages sock token st))) = ([], st)"
    if "list_ex is_authError (fst (authenticate_memory d messages sock token st))"
    using that assms
    by (auto simp: authenticate_memory_def disconnect_memory_def truthy_def Let_def
        split: sum.splits)
  show ?thesis using fresh early announced memory by blast
qed

theorem disconnect_unregistered_connection_witness:
  "socket_userId example_socket = None
   \<and> map_of (activeUsers empty_server) (socket_id example_socket) = None
   \<and> disconnect failing_db example_socket empty_server = ([], empty_server)
   \<and> disconnect_memory example_socket empty_server = ([], empty_server)
   \<and> fails_before_session failing_db ''token''
   \<and> authenticate failing_db example_socket ''token'' empty_server
       = ([Db_findById ''u1'', Emit_authError ''s1'' ''User not found'',
           Socket_disconnect ''s1''], example_socket, empty_server)
   \<and> disconnect failing_db
        (fst (snd (authenticate failing_db example_socket ''token'' empty_server)))
        (snd (snd (authenticate failing_db example_socket ''token'' empty_server)))
       = ([], empty_server)"
proof -
  have a: "socket_userId example_socket = None" by (simp add: example_socket_def)
  have b: "map_of (activeUsers empty_server) (socket_id example_socket) = None"
    by (simp add: empty_server_def)
  have c: "fails_before_session failing_db ''token''"
    by (simp add: fails_before_session_def failing_db_def)
  have d: "authenticate failing_db example_socket ''token'' empty_server
       = ([Db_findById ''u1'', Emit_authError ''s1'' ''User not found'',
           Socket_disconnect ''s1''], example_socket, empty_server)"
    by (simp add: authenticate_def failing_db_def example_socket_def)
  have e: "disconnect failing_db example_socket empty_server = ([], empty_server)"
    "disconnect_memory example_socket empty_server = ([], empty_server)"
    by (simp_all add: disconnect_def disconnect_memory_def example_socket_def truthy_def)
  show ?thesis
    using a b c d e disconnect_unregistered_connection [OF a b, of failing_db "''token''"]
    by simp
qed

section \<open>Properties of broadcast\<close>

lemma upt_shift: "[u ..< u + Suc n] = u # [Suc u ..< Suc u + n]"
  by (simp add: upt_conv_Cons)

lemma distinct_uuids:
  "inj (randomUUID e) \<Longrightarrow> distinct (map (randomUUID e) [m ..< n])"
  by (simp add: distinct_map inj_on_def inj_def)

text \<open>
  Claim C3, as stated: every broadcast goes to exactly the agents whose status is
  \<^verbatim>\<open>authenticated\<close> or \<^verbatim>\<open>active\<close>, each recipient's command has its own commandId, and the
  result is a per-agent success/failure list. With three agents connected,
  \<^verbatim>\<open>broadcastCommandToAllAgents\<close> sends the two recipients the same commandId \<open>c1\<close>, the one
  of the template, and keeps a single pending command; POST /broadcast creates a command
  for an agent whose status is \<^verbatim>\<open>command_sent\<close> and answers with the list of commandIds.
\<close>

theorem broadcast_shared_command_id_counterexample:
  "map emitted_command_id
     (fst (snd (broadcastCommandToAllAgents example_env [''s1'', ''s2'', ''s3'']
        listFiles_command three_agent_server)))
     = [Some ''c1'', Some ''c1'']
   \<and> map fst (pendingCommands (snd (snd (broadcastCommandToAllAgents example_env
        [''s1'', ''s2'', ''s3''] listFiles_command three_agent_server)))) = [''c1'']
   \<and> map (\<lambda>p. a_status (snd p)) (activeAgents three_agent_server)
     = [''command_sent'', ''authenticated'']
   \<and> fst (post_broadcast example_env listFiles_request three_agent_server)
     = Broadcast_reply 2 [''uuid-'', ''uuid-u'']"
  by (simp add: broadcastCommandToAllAgents_def sendCommandToAgent_def post_broadcast_def
      three_agent_server_def empty_server_def example_connection_def is_active_agent_def
      listFiles_command_def listFiles_request_def authenticate_command_def pending_of_def
      Date_now_def crypto_randomUUID_def example_env_def Let_def)

text \<open>
  Claim C3, as amended. \<^verbatim>\<open>broadcastCommandToAllAgents\<close> attempts exactly the connections
  whose status is \<^verbatim>\<open>authenticated\<close> or \<^verbatim>\<open>active\<close>, in registry order; its result has one
  entry per such agent, which is a success or a failure with the error message and depends
  only on that agent's registry entry and socket, so a failed send does not keep the
  command from the agents after it. What it emits is, for each agent reported as a success
  and for no other, one \<^verbatim>\<open>command:<module>\<close> event on that agent's socket carrying the
  fields of the template, the clock reading of that send as timestamp (every attempted
  send that finds the agent takes two readings) and the hash of id, action and secret.
  POST /broadcast (with module and action) creates one command for every registered agent
  whatever its status and answers with their commandIds; provided \<^verbatim>\<open>randomUUID\<close> never
  repeats, these are pairwise distinct and under each the command is stored with its
  agent, the fields of the request, status \<^verbatim>\<open>pending\<close>, its clock reading and its hash.
\<close>

theorem broadcast_recipients_and_results:
  assumes "recipients = filter (\<lambda>agent. c_status agent = ''authenticated'' \<or> c_status agent = ''active'')
                          (map snd (agentConnections st))"
  shows "map br_agentId (fst (broadcastCommandToAllAgents e io command st))
     = map c_agentId (recipients)
   \<and> fst (broadcastCommandToAllAgents e io command st)
     = map (send_outcome (agentConnections st) io)
         (recipients)
   \<and> map emit_socket (fst (snd (broadcastCommandToAllAgents e io command st)))
     = map (\<lambda>agent. c_socketId (the (map_of (agentConnections st) (c_agentId agent))))
         (filter (\<lambda>agent. br_success (send_outcome (agentConnections st) io agent))
            (recipients))
   \<and> fst (snd (broadcastCommandToAllAgents e io command st))
     = concat (map (\<lambda>i.
         case map_of (agentConnections st)
                (c_agentId (recipients ! i)) of
           None \<Rightarrow> []
         | Some registered \<Rightarrow>
             if c_socketId registered \<in> set io
             then [Command_event (c_socketId registered) (cmd_module command)
                     \<lparr>cmd_id = cmd_id command, cmd_agentId = cmd_agentId command,
                      cmd_module = cmd_module command, cmd_action = cmd_action command,
                      cmd_params = cmd_params command, cmd_priority = cmd_priority command,
                      ac_timestamp = clock e (ticks st + 2 * length (filter
                        (\<lambda>a. map_of (agentConnections st) (c_agentId a) \<noteq> None)
                        (take i (recipients)))),
                      ac_authHash = digest_hex (sha256 e
                        (cmd_id command @ cmd_action command @ SHARED_SECRET e))\<rparr>]
             else [])
         [0 ..< length (recipients)])
   \<and> (q_module body \<noteq> [] \<and> q_action body \<noteq> [] \<longrightarrow>
        fst (post_broadcast e body st)
          = Broadcast_reply (length (activeAgents st))
              (map (randomUUID e) [uuids st ..< uuids st + length (activeAgents st)])
        \<and> (inj (randomUUID e) \<longrightarrow>
             distinct (map (randomUUID e) [uuids st ..< uuids st + length (activeAgents st)])
             \<and> (\<forall>i < length (activeAgents st).
                  map_of (agentCommands (snd (post_broadcast e body st)))
                    (randomUUID e (uuids st + i))
                  = Some \<lparr>cmd_id = randomUUID e (uuids st + i),
                          cmd_agentId = fst (activeAgents st ! i),
                          cmd_module = q_module body, cmd_action = q_action body,
                          cmd_params = (case q_params body of
                                          None \<Rightarrow> JObj []
                                        | Some v \<Rightarrow> if falsy v then JObj [] else v),
                          cmd_priority =
                            (case q_priority body of None \<Rightarrow> ''normal'' | Some v \<Rightarrow> v),
                          cmd_timestamp = clock e (ticks st + i), cmd_status = ''pending'',
                          cmd_authHash = digest_hex (sha256 e
                            (randomUUID e (uuids st + i) @ q_action body @ SHARED_SECRET e)),
                          cmd_completedAt = None\<rparr>)))"
proof -
  txt \<open>one call of \<open>sendCommandToAgent\<close>\<close>
  have send_conns:
    "agentConnections (snd (snd (sendCommandToAgent e io agentId command s)))
       = agentConnections s" for agentId s
    by (simp add: sendCommandToAgent_def Date_now_def Let_def split: option.splits)
  have send_ticks:
    "ticks (snd (snd (sendCommandToAgent e io agentId command s)))
       = ticks s + (if map_of (agentConnections s) agentId = None then 0 else 2)" for agentId s
    by (simp add: sendCommandToAgent_def Date_now_def Let_def split: option.splits)
  have send_result:
    "(case fst (sendCommandToAgent e io (c_agentId agent) command s) of
        Inr result \<Rightarrow> Broadcast_result (c_agentId agent) True None
      | Inl err \<Rightarrow> Broadcast_result (c_agentId agent) False (Some (message err)))
     = send_outcome (agentConnections s) io agent" for agent s
    by (simp add: sendCommandToAgent_def send_outcome_def Date_now_def Let_def
        split: option.splits)
  have send_emits:
    "fst (snd (sendCommandToAgent e io agentId command s))
       = (case map_of (agentConnections s) agentId of
            None \<Rightarrow> []
          | Some registered \<Rightarrow>
              if c_socketId registered \<in> set io
              then [Command_event (c_socketId registered) (cmd_module command)
                    \<lparr>cmd_id = cmd_id command, cmd_agentId = cmd_agentId command,
                     cmd_module = cmd_module command, cmd_action = cmd_action command,
                     cmd_params = cmd_params command, cmd_priority = cmd_priority command,
                     ac_timestamp = clock e (ticks s),
                     ac_authHash = digest_hex (sha256 e
                       (cmd_id command @ cmd_action command @ SHARED_SECRET e))\<rparr>]
              else [])" for agentId s
    by (simp add: sendCommandToAgent_def authenticate_command_def auth_hash_def Date_now_def
        Let_def split: option.splits)
  txt \<open>the loop over the recipients\<close>
  have loop_results:
    "fst (broadcast_send e io command agents s)
       = map (send_outcome (agentConnections s) io) agents" for agents s
  proof (induction agents arbitrary: s)
    case Nil
    then show ?case by simp
  next
    case (Cons agent agents)
    obtain r em s1 where sent: "sendCommandToAgent e io (c_agentId agent) command s = (r, em, s1)"
      by (cases "sendCommandToAgent e io (c_agentId agent) command s") auto
    have c: "agentConnections s1 = agentConnections s"
      using send_conns [where agentId = "c_agentId agent" and s = s] sent by simp
    have o: "(case r of Inr result \<Rightarrow> Broadcast_result (c_agentId agent) True None
               | Inl err \<Rightarrow> Broadcast_result (c_agentId agent) False (Some (message err)))
             = send_outcome (agentConnections s) io agent"
      using send_result [where agent = agent and s = s] sent by simp
    show ?case
      using Cons.IH [of s1] o
      by (cases r) (simp_all add: sent c split_beta)
  qed
  have loop_Cons:
    "fst (snd (broadcast_send e io command (agent # agents) s))
       = fst (snd (sendCommandToAgent e io (c_agentId agent) command s))
         @ fst (snd (broadcast_send e io command agents
                       (snd (snd (sendCommandToAgent e io (c_agentId agent) command s)))))"
    for agent agents s
    by (simp add: split_beta split: prod.splits sum.splits)
  have loop_emits:
    "fst (snd (broadcast_send e io command agents s))
       = concat (map (\<lambda>i.
           case map_of (agentConnections s) (c_agentId (agents ! i)) of
             None \<Rightarrow> []
           | Some registered \<Rightarrow>
               if c_socketId registered \<in> set io
               then [Command_event (c_socketId registered) (cmd_module command)
                    \<lparr>cmd_id = cmd_id command, cmd_agentId = cmd_agentId command,
                     cmd_module = cmd_module command, cmd_action = cmd_action command,
                     cmd_params = cmd_params command, cmd_priority = cmd_priority command,
                     ac_timestamp = clock e (ticks s + 2 * length (filter
                          (\<lambda>a. map_of (agentConnections s) (c_agentId a) \<noteq> None)
                          (take i agents))),
                     ac_authHash = digest_hex (sha256 e
                       (cmd_id command @ cmd_action command @ SHARED_SECRET e))\<rparr>]
               else []) [0 ..< length agents])" for agents s
  proof (induction agents arbitrary: s)
    case Nil
    then show ?case by simp
  next
    case (Cons agent agents)
    let ?s1 = "snd (snd (sendCommandToAgent e io (c_agentId agent) command s))"
    have c: "agentConnections ?s1 = agentConnections s"
      by (rule send_conns)
    have t: "ticks ?s1
               = ticks s + (if map_of (agentConnections s) (c_agentId agent) = None then 0 else 2)"
      by (rule send_ticks)
    show ?case
      unfolding loop_Cons Cons.IH [of ?s1] c t send_emits
      by (simp add: map_upt_Suc del: upt_Suc add.commute add.left_commute
          cong: option.case_cong if_cong)
  qed
  have loop_sockets:
    "map emit_socket (fst (snd (broadcast_send e io command agents s)))
       = map (\<lambda>agent. c_socketId (the (map_of (agentConnections s) (c_agentId agent))))
           (filter (\<lambda>agent. br_success (send_outcome (agentConnections s) io agent)) agents)"
    for agents s
  proof (induction agents arbitrary: s)
    case Nil
    then show ?case by simp
  next
    case (Cons agent agents)
    let ?s1 = "snd (snd (sendCommandToAgent e io (c_agentId agent) command s))"
    have c: "agentConnections ?s1 = agentConnections s"
      by (rule send_conns)
    show ?case
      unfolding loop_Cons map_append Cons.IH [of ?s1] c send_emits
      by (simp add: send_outcome_def split: option.splits)
  qed
  txt \<open>the broadcast over the live connection\<close>
  have active: "filter is_active_agent (map snd (agentConnections st)) = recipients"
    unfolding assms by (rule filter_cong) (simp_all add: is_active_agent_def)
  have broadcast:
    "broadcastCommandToAllAgents e io command st = broadcast_send e io command recipients st"
    by (simp add: broadcastCommandToAllAgents_def active)
  have agent_ids: "br_agentId (send_outcome conns io agent) = c_agentId agent" for conns agent
    by (simp add: send_outcome_def split: option.splits)
  have results: "fst (broadcastCommandToAllAgents e io command st)
                   = map (send_outcome (agentConnections st) io) recipients"
    unfolding broadcast by (rule loop_results)
  have attempted: "map br_agentId (fst (broadcastCommandToAllAgents e io command st))
                     = map c_agentId recipients"
    unfolding results by (simp add: agent_ids)
  txt \<open>the loop of POST /broadcast\<close>
  have loop_step:
    "broadcast_loop e body (k # ks) s
       = (randomUUID e (uuids s)
            # fst (broadcast_loop e body ks
                (s\<lparr>uuids := Suc (uuids s), ticks := Suc (ticks s),
                   agentCommands :=
                     AList.update (randomUUID e (uuids s))
                       (new_command e (randomUUID e (uuids s)) k body (clock e (ticks s)))
                       (agentCommands s)\<rparr>)),
          snd (broadcast_loop e body ks
                (s\<lparr>uuids := Suc (uuids s), ticks := Suc (ticks s),
                   agentCommands :=
                     AList.update (randomUUID e (uuids s))
                       (new_command e (randomUUID e (uuids s)) k body (clock e (ticks s)))
                       (agentCommands s)\<rparr>)))" for k ks s
    by (simp add: crypto_randomUUID_def Date_now_def split_beta Let_def)
  have loop_ids:
    "fst (broadcast_loop e body ks s) = map (randomUUID e) [uuids s ..< uuids s + length ks]"
    for ks s
  proof (induction ks arbitrary: s)
    case Nil
    then show ?case by simp
  next
    case (Cons k ks)
    have "[uuids s ..< uuids s + length (k # ks)]
            = uuids s # [Suc (uuids s) ..< Suc (uuids s) + length ks]"
      using upt_shift [of "uuids s" "length ks"] by simp
    then show ?case
      by (simp only: loop_step fst_conv Cons.IH list.map) simp
  qed
  have loop_other:
    "map_of (agentCommands (snd (broadcast_loop e body ks s))) k = map_of (agentCommands s) k"
    if "k \<notin> set (fst (broadcast_loop e body ks s))" for k ks s
    using that
  proof (induction ks arbitrary: s)
    case Nil
    then show ?case by simp
  next
    case (Cons k' ks)
    then show ?case
      by (simp only: loop_step fst_conv snd_conv) (simp add: update_conv')
  qed
  have loop_stored:
    "map_of (agentCommands (snd (broadcast_loop e body ks s))) (randomUUID e (uuids s + i))
       = Some (new_command e (randomUUID e (uuids s + i)) (ks ! i) body (clock e (ticks s + i)))"
    if unique: "inj (randomUUID e)" and bound: "i < length ks" for i ks s
    using bound
  proof (induction ks arbitrary: s i)
    case Nil
    then show ?case by simp
  next
    case (Cons k ks)
    define cid where "cid = randomUUID e (uuids s)"
    define s3 where
      "s3 = s\<lparr>uuids := Suc (uuids s), ticks := Suc (ticks s),
              agentCommands :=
                AList.update cid (new_command e cid k body (clock e (ticks s)))
                  (agentCommands s)\<rparr>"
    have step: "snd (broadcast_loop e body (k # ks) s) = snd (broadcast_loop e body ks s3)"
      by (simp only: loop_step snd_conv s3_def cid_def)
    show ?case
    proof (cases i)
      case 0
      have "cid \<notin> set (fst (broadcast_loop e body ks s3))"
        using unique by (auto simp: loop_ids s3_def cid_def dest: injD)
      then have "map_of (agentCommands (snd (broadcast_loop e body ks s3))) cid
                   = map_of (agentCommands s3) cid"
        by (rule loop_other)
      then show ?thesis
        unfolding step using 0 by (simp add: s3_def cid_def update_conv')
    next
      case (Suc j)
      then have "j < length ks" using Cons.prems by simp
      from Cons.IH [OF this, of s3] show ?thesis
        unfolding step using Suc by (simp add: s3_def)
    qed
  qed
  txt \<open>POST /broadcast\<close>
  have reply: "fst (post_broadcast e body st)
          = Broadcast_reply (length (activeAgents st))
              (map (randomUUID e) [uuids st ..< uuids st + length (activeAgents st)])"
    and after: "snd (post_broadcast e body st)
          = snd (broadcast_loop e body (map fst (activeAgents st)) st)"
    if "q_module body \<noteq> []" "q_action body \<noteq> []"
    using that by (simp_all add: post_broadcast_def split_beta Let_def loop_ids)
  have stored: "\<forall>i < length (activeAgents st).
                  map_of (agentCommands (snd (post_broadcast e body st)))
                    (randomUUID e (uuids st + i))
                  = Some \<lparr>cmd_id = randomUUID e (uuids st + i),
                          cmd_agentId = fst (activeAgents st ! i),
                          cmd_module = q_module body, cmd_action = q_action body,
                          cmd_params = (case q_params body of
                                          None \<Rightarrow> JObj []
                                        | Some v \<Rightarrow> if falsy v then JObj [] else v),
                          cmd_priority =
                            (case q_priority body of None \<Rightarrow> ''normal'' | Some v \<Rightarrow> v),
                          cmd_timestamp = clock e (ticks st + i), cmd_status = ''pending'',
                          cmd_authHash = digest_hex (sha256 e
                            (randomUUID e (uuids st + i) @ q_action body @ SHARED_SECRET e)),
                          cmd_completedAt = None\<rparr>"
    if present: "q_module body \<noteq> []" "q_action body \<noteq> []" and unique: "inj (randomUUID e)"
  proof (intro allI impI)
    fix i
    assume "i < length (activeAgents st)"
    then have "i < length (map fst (activeAgents st))" by simp
    from loop_stored [OF unique this, of st] show
      "map_of (agentCommands (snd (post_broadcast e body st))) (randomUUID e (uuids st + i))
         = Some \<lparr>cmd_id = randomUUID e (uuids st + i),
                 cmd_agentId = fst (activeAgents st ! i),
                 cmd_module = q_module body, cmd_action = q_action body,
                 cmd_params = (case q_params body of
                                 None \<Rightarrow> JObj []
                               | Some v \<Rightarrow> if falsy v then JObj [] else v),
                 cmd_priority =
                   (case q_priority body of None \<Rightarrow> ''normal'' | Some v \<Rightarrow> v),
                 cmd_timestamp = clock e (ticks st + i), cmd_status = ''pending'',
                 cmd_authHash = digest_hex (sha256 e
                   (randomUUID e (uuids st + i) @ q_action body @ SHARED_SECRET e)),
                 cmd_completedAt = None\<rparr>"
      using \<open>i < length (activeAgents st)\<close>
      by (simp add: after [OF present] new_command_def params_or_empty_def
          priority_or_normal_def auth_hash_def)
  qed
  show ?thesis
    apply (intro conjI impI)
    subgoal by (rule attempted)
    subgoal by (rule results)
    subgoal unfolding broadcast by (rule loop_sockets)
    subgoal unfolding broadcast by (rule loop_emits)
    subgoal by (rule reply) simp_all
    subgoal by (rule distinct_uuids)
    subgoal using stored by blast
    done
qed

lemma inj_example_uuid: "inj (randomUUID example_env)"
  by (simp add: inj_def example_env_def)

theorem broadcast_recipients_and_results_witness:
  "fst (broadcastCommandToAllAgents example_env [''s1'', ''s3''] listFiles_command
          three_agent_server)
     = [Broadcast_result ''ag-2'' False (Some ''Agent socket not found: ag-2''),
        Broadcast_result ''ag-1'' True None]
   \<and> fst (snd (broadcastCommandToAllAgents example_env [''s1'', ''s3''] listFiles_command
          three_agent_server))
     = [Command_event ''s1'' ''fs''
          \<lparr>cmd_id = ''c1'', cmd_agentId = ''ag-1'', cmd_module = ''fs'',
           cmd_action = ''listFiles'', cmd_params = JObj [], cmd_priority = ''normal'',
           ac_timestamp = 1000002, ac_authHash = digest_hex 0\<rparr>]
   \<and> fst (post_broadcast example_env listFiles_request three_agent_server)
     = Broadcast_reply 2 [''uuid-'', ''uuid-u'']
   \<and> distinct [''uuid-'', ''uuid-u'']
   \<and> map_of (agentCommands (snd (post_broadcast example_env listFiles_request
           three_agent_server))) ''uuid-''
     = Some \<lparr>cmd_id = ''uuid-'', cmd_agentId = ''ag-4'', cmd_module = ''fs'',
             cmd_action = ''listFiles'', cmd_params = JObj [], cmd_priority = ''normal'',
             cmd_timestamp = 1000000, cmd_status = ''pending'', cmd_authHash = digest_hex 0,
             cmd_completedAt = None\<rparr>
   \<and> map_of (agentCommands (snd (post_broadcast example_env listFiles_request
           three_agent_server))) ''uuid-u''
     = Some \<lparr>cmd_id = ''uuid-u'', cmd_agentId = ''ag-5'', cmd_module = ''fs'',
             cmd_action = ''listFiles'', cmd_params = JObj [], cmd_priority = ''normal'',
             cmd_timestamp = 1000001, cmd_status = ''pending'', cmd_authHash = digest_hex 0,
             cmd_completedAt = None\<rparr>"
proof -
  have a: "q_module listFiles_request \<noteq> [] \<and> q_action listFiles_request \<noteq> []"
    by (simp add: listFiles_request_def)
  have conns: "agentConnections three_agent_server =
       [(''ag-2'', \<lparr>c_socketId = ''s2'', c_agentId = ''ag-2'', c_platform = ''linux'',
                   c_connectedAt = 3, c_lastSeen = 4, c_status = ''active''\<rparr>),
        (''ag-3'', \<lparr>c_socketId = ''s3'', c_agentId = ''ag-3'', c_platform = ''linux'',
                   c_connectedAt = 3, c_lastSeen = 4, c_status = ''disconnected''\<rparr>),
        (''ag-1'', example_connection)]"
    by (simp add: three_agent_server_def empty_server_def)
  have agents: "activeAgents three_agent_server =
       [(''ag-4'', \<lparr>a_agentId = ''ag-4'', a_platform = ''linux'', a_connectedAt = 3,
                   a_lastSeen = 4, a_status = ''command_sent''\<rparr>),
        (''ag-5'', \<lparr>a_agentId = ''ag-5'', a_platform = ''darwin'', a_connectedAt = 3,
                   a_lastSeen = 4, a_status = ''authenticated''\<rparr>)]"
    "uuids three_agent_server = 0" "ticks three_agent_server = 0"
    by (simp_all add: three_agent_server_def empty_server_def)
  have u: "randomUUID example_env 0 = ''uuid-''" "randomUUID example_env (Suc 0) = ''uuid-u''"
    "clock example_env 0 = 1000000" "clock example_env (Suc 0) = 1000001"
    "clock example_env (Suc (Suc 0)) = 1000002"
    "sha256 example_env = (\<lambda>m. 0)"
    by (simp_all add: example_env_def)
  have direct:
    "fst (snd (broadcastCommandToAllAgents example_env [''s1'', ''s3''] listFiles_command
          three_agent_server))
     = [Command_event ''s1'' ''fs''
          \<lparr>cmd_id = ''c1'', cmd_agentId = ''ag-1'', cmd_module = ''fs'',
           cmd_action = ''listFiles'', cmd_params = JObj [], cmd_priority = ''normal'',
           ac_timestamp = 1000002, ac_authHash = digest_hex 0\<rparr>]"
    "fst (post_broadcast example_env listFiles_request three_agent_server)
     = Broadcast_reply 2 [''uuid-'', ''uuid-u'']"
    by (simp_all add: broadcastCommandToAllAgents_def sendCommandToAgent_def post_broadcast_def
        three_agent_server_def empty_server_def example_connection_def is_active_agent_def
        listFiles_command_def listFiles_request_def authenticate_command_def auth_hash_def
        Date_now_def crypto_randomUUID_def example_env_def Let_def)
  show ?thesis
    using a direct inj_example_uuid
      broadcast_recipients_and_results [OF refl, where e = example_env
        and io = "[''s1'', ''s3'']" and command = listFiles_command
        and st = three_agent_server and body = listFiles_request]
    by (simp add: conns agents u All_less_Suc send_outcome_def
        example_connection_def listFiles_command_def listFiles_request_def)
qed

end
